theory Spec2Isabelle
  imports Complex_Main "HOL-Library.Char_ord" "HOL-Library.List_Lexorder"
    "HOL-Library.Product_Lexorder" "HOL-Library.Code_Target_Numeral"
begin

section \<open>Values\<close>

text \<open>
  The dashboard script \<^verbatim>\<open>Dashboard.py\<close> works on a pandas DataFrame. The model keeps
  what the script reads of it.

  A Python string is a list of characters; a \<^typ>\<open>char\<close> stands for a code point
  below 256 (the column labels of the payroll file need no more). A float is a double,
  given by its value: a rational, NaN, or an infinity. What reads a number from text
  rounds it to the nearest double, and to an infinity beyond the largest one. The sign
  of zero is left out. The sums and the means add their values exactly: the order in
  which NumPy adds, and the rounding of each addition, are not modelled.
\<close>

datatype pyfloat = Fin rat | NaN | PInf | NInf

text \<open>
  An entry of an object-dtype or int64 column as \<^verbatim>\<open>pd.read_csv\<close> delivers it: a
  \<^verbatim>\<open>str\<close>, an integer (a 64-bit one), or the missing marker (NaN).
\<close>

datatype raw = Text string | Whole int | Missing

text \<open>
  A column (pandas Series) is an object column or a float64 column. An int64 column
  is held as an object column of integers; where pandas would keep a column of
  integers int64, the model makes it float64, so the wrap-around of int64 sums is not
  modelled.
\<close>

datatype column = Object "raw list" | Float64 "pyfloat list"

text \<open>
  The exceptions the script can meet. \<open>ValueError\<close> holds the text that \<^verbatim>\<open>float\<close>
  could not read and \<open>KeyError\<close> the argument of the exception, a label or a
  message; the others hold \<^verbatim>\<open>str(e)\<close>.
\<close>

datatype exn =
    FileNotFoundError
  | ParserError string
  | ValueError string
  | KeyError string
  | TypeError string
  | OtherError string

section \<open>Python strings\<close>

definition is_digit :: "char \<Rightarrow> bool" where
  "is_digit c = (c \<in> set ''0123456789'')"

definition digit_val :: "char \<Rightarrow> nat" where
  "digit_val c = of_char c - 48"

text \<open>\<^verbatim>\<open>str.isspace\<close> on the code points below 256.\<close>

definition py_isspace :: "char \<Rightarrow> bool" where
  "py_isspace c =
     (c \<in> {CHR 0x09, CHR 0x0A, CHR 0x0B, CHR 0x0C, CHR 0x0D,
            CHR 0x1C, CHR 0x1D, CHR 0x1E, CHR 0x1F, CHR 0x20, CHR 0x85, CHR 0xA0})"

text \<open>\<^verbatim>\<open>s.strip()\<close>\<close>

definition str_strip :: "string \<Rightarrow> string" where
  "str_strip s = rev (dropWhile py_isspace (rev (dropWhile py_isspace s)))"

text \<open>\<^verbatim>\<open>re.sub(r'[$,]', '', s)\<close>\<close>

definition str_replace :: "string \<Rightarrow> string" where
  "str_replace s = filter (\<lambda>c. c \<noteq> CHR ''$'' \<and> c \<noteq> CHR '','') s"

definition to_lower :: "char \<Rightarrow> char" where
  "to_lower c =
     (case map_of (zip ''ABCDEFGHIJKLMNOPQRSTUVWXYZ'' ''abcdefghijklmnopqrstuvwxyz'') c of
        None \<Rightarrow> c | Some d \<Rightarrow> d)"

fun digits_val :: "nat \<Rightarrow> string \<Rightarrow> nat" where
  "digits_val acc [] = acc"
| "digits_val acc (c # cs) = digits_val (acc * 10 + digit_val c) cs"

text \<open>\<^verbatim>\<open>str(n)\<close> of an integer; \<open>digit_char\<close> is applied to numbers below 10 only.\<close>

definition digit_char :: "nat \<Rightarrow> char" where
  "digit_char d = ''0123456789'' ! d"

function nat_digits :: "nat \<Rightarrow> string" where
  "nat_digits n =
     (if n < 10 then [digit_char n] else nat_digits (n div 10) @ [digit_char (n mod 10)])"
  by pat_completeness auto
termination
  by (relation "measure id") auto

declare nat_digits.simps [simp del]

definition int_str :: "int \<Rightarrow> string" where
  "int_str i = (if i < 0 then CHR ''-'' # nat_digits (nat (- i)) else nat_digits (nat i))"

text \<open>
  \<^verbatim>\<open>repr(s)\<close> of a string: in single quotes, or in double quotes when it holds a
  single quote and no double one; the quote, the backslash and what cannot be printed
  are escaped.
\<close>

definition hex_digit :: "nat \<Rightarrow> char" where
  "hex_digit d = ''0123456789abcdef'' ! d"

definition is_printable :: "char \<Rightarrow> bool" where
  "is_printable c =
     (let n = (of_char c :: nat)
      in (32 \<le> n \<and> n < 127) \<or> (161 \<le> n \<and> n \<noteq> 173))"

definition escape_char :: "char \<Rightarrow> char \<Rightarrow> string" where
  "escape_char quote c =
     (if c = quote \<or> c = CHR 0x5C then [CHR 0x5C, c]
      else if c = CHR 0x09 then [CHR 0x5C, CHR ''t'']
      else if c = CHR 0x0A then [CHR 0x5C, CHR ''n'']
      else if c = CHR 0x0D then [CHR 0x5C, CHR ''r'']
      else if is_printable c then [c]
      else [CHR 0x5C, CHR ''x'', hex_digit (of_char c div 16), hex_digit (of_char c mod 16)])"

definition py_repr :: "string \<Rightarrow> string" where
  "py_repr s =
     (let quote = (if CHR 0x27 \<in> set s \<and> CHR 0x22 \<notin> set s then CHR 0x22 else CHR 0x27)
      in quote # concat (map (escape_char quote) s) @ [quote])"

section \<open>Doubles\<close>

text \<open>Rounding to the nearest integer, a tie to the even one.\<close>

definition round_half_even :: "rat \<Rightarrow> int" where
  "round_half_even r =
     (let f = \<lfloor>r\<rfloor>; d = r - of_int f
      in if d < 1 / 2 then f else if 1 / 2 < d then f + 1 else if even f then f else f + 1)"

text \<open>The number of binary digits of \<open>n\<close>.\<close>

function bit_length :: "nat \<Rightarrow> nat" where
  "bit_length n = (if n = 0 then 0 else Suc (bit_length (n div 2)))"
  by pat_completeness auto
termination
  by (relation "measure id") auto

declare bit_length.simps [simp del]

definition pow2 :: "int \<Rightarrow> rat" where
  "pow2 e = (if 0 \<le> e then 2 ^ nat e else 1 / 2 ^ nat (- e))"

text \<open>For \<open>0 < r\<close>, the \<open>k\<close> with \<open>2 ^ k \<le> r < 2 ^ (k + 1)\<close>.\<close>

definition floor_log2 :: "rat \<Rightarrow> int" where
  "floor_log2 r =
     (if 1 \<le> r then int (bit_length (nat \<lfloor>r\<rfloor>)) - 1
      else - int (bit_length (nat (\<lceil>1 / r\<rceil> - 1))))"

text \<open>
  The IEEE 754 rounding of binary64, to nearest and a tie to even: 53 significant bits,
  the least exponent that of the subnormal numbers. \<open>nearest_double\<close> has no upper
  bound; \<open>round_double\<close> gives an infinity from \<open>2 ^ 1024\<close> on.
\<close>

definition nearest_double :: "rat \<Rightarrow> rat" where
  "nearest_double r =
     (if r = 0 then 0
      else (let e = max (floor_log2 \<bar>r\<bar> - 52) (- 1074);
                m = round_half_even (\<bar>r\<bar> / pow2 e)
            in (if r < 0 then - 1 else 1) * of_int m * pow2 e))"

definition round_double :: "rat \<Rightarrow> pyfloat" where
  "round_double r =
     (let v = nearest_double r
      in if 2 ^ 1024 \<le> v then PInf else if v \<le> - (2 ^ 1024) then NInf else Fin v)"

section \<open>Reading a number from text\<close>

text \<open>
  The decimal literal:
  digits, an optional point with digits, at least one digit in all, and an optional
  exponent \<^verbatim>\<open>e\<close> or \<^verbatim>\<open>E\<close> with an optional sign and at least one digit. The
  whole text must be used up. \<open>number_body\<close> gives the number the literal writes;
  the reader then rounds it.
\<close>

definition scale10 :: "rat \<Rightarrow> int \<Rightarrow> rat" where
  "scale10 m e = (if 0 \<le> e then m * 10 ^ nat e else m / 10 ^ nat (- e))"

definition exponent_part :: "string \<Rightarrow> int option" where
  "exponent_part s =
     (case s of
        [] \<Rightarrow> Some 0
      | c # r \<Rightarrow>
          if c = CHR ''e'' \<or> c = CHR ''E'' then
            (let (neg, ds) =
               (case r of
                  [] \<Rightarrow> (False, r)
                | d # r' \<Rightarrow>
                    if d = CHR ''-'' then (True, r')
                    else if d = CHR ''+'' then (False, r') else (False, r))
             in if ds \<noteq> [] \<and> list_all is_digit ds
                then Some (if neg then - int (digits_val 0 ds) else int (digits_val 0 ds))
                else None)
          else None)"

definition number_body :: "string \<Rightarrow> rat option" where
  "number_body s =
     (let ip = takeWhile is_digit s;
          r1 = dropWhile is_digit s;
          (fp, r2) =
            (case r1 of
               [] \<Rightarrow> ([], r1)
             | c # r \<Rightarrow>
                 if c = CHR ''.'' then (takeWhile is_digit r, dropWhile is_digit r)
                 else ([], r1))
      in if ip = [] \<and> fp = [] then None
         else (case exponent_part r2 of
                 None \<Rightarrow> None
               | Some e \<Rightarrow>
                   Some (scale10 (of_nat (digits_val 0 (ip @ fp))) (e - int (length fp)))))"

definition split_sign :: "string \<Rightarrow> bool \<times> string" where
  "split_sign s =
     (case s of
        [] \<Rightarrow> (False, s)
      | c # r \<Rightarrow>
          if c = CHR ''-'' then (True, r)
          else if c = CHR ''+'' then (False, r) else (False, s))"

subsection \<open>Python's \<^verbatim>\<open>float(s)\<close>\<close>

text \<open>
  Underscores may stand between two digits (PEP 515); CPython checks each and
  removes them before it reads the number.
\<close>

fun del_underscores :: "char \<Rightarrow> string \<Rightarrow> string option" where
  "del_underscores prev [] = (if prev = CHR ''_'' then None else Some [])"
| "del_underscores prev (c # cs) =
     (if c = CHR ''_'' then (if is_digit prev then del_underscores c cs else None)
      else if prev = CHR ''_'' \<and> \<not> is_digit c then None
      else map_option ((#) c) (del_underscores c cs))"

definition float_literal :: "string \<Rightarrow> pyfloat option" where
  "float_literal s =
     (let (neg, r) = split_sign s; l = map to_lower r
      in if l = ''inf'' \<or> l = ''infinity'' then Some (if neg then NInf else PInf)
         else if l = ''nan'' then Some NaN
         else map_option (\<lambda>q. round_double (if neg then - q else q)) (number_body r))"

text \<open>
  \<^verbatim>\<open>float(s)\<close>: \<open>None\<close> is the \<^verbatim>\<open>ValueError\<close>. The number read is rounded
  to the nearest double, so \<^verbatim>\<open>1e400\<close> reads as infinity.
\<close>

definition py_float :: "string \<Rightarrow> pyfloat option" where
  "py_float s =
     (case del_underscores (CHR 0x00) (str_strip s) of
        None \<Rightarrow> None
      | Some u \<Rightarrow> float_literal u)"

section \<open>The Currency Parser\<close>

text \<open>\<^verbatim>\<open>series.astype(str)\<close> on an object column: NaN becomes the text \<^verbatim>\<open>nan\<close>.\<close>

fun astype_str :: "raw \<Rightarrow> string" where
  "astype_str (Text s) = s"
| "astype_str (Whole n) = int_str n"
| "astype_str Missing = ''nan''"

text \<open>\<^verbatim>\<open>.replace('', np.nan)\<close> on a series of strings.\<close>

definition replace_empty :: "string \<Rightarrow> raw" where
  "replace_empty s = (if s = [] then Missing else Text s)"

text \<open>
  \<^verbatim>\<open>.astype(float)\<close> on an object column calls \<^verbatim>\<open>float\<close> on each entry and
  raises \<^verbatim>\<open>ValueError\<close> at the first one that is no number.
\<close>

fun float_of_raw :: "raw \<Rightarrow> exn + pyfloat" where
  "float_of_raw (Text s) = (case py_float s of None \<Rightarrow> Inl (ValueError s) | Some v \<Rightarrow> Inr v)"
| "float_of_raw (Whole n) = Inr (round_double (of_int n))"
| "float_of_raw Missing = Inr NaN"

fun astype_float :: "raw list \<Rightarrow> exn + pyfloat list" where
  "astype_float [] = Inr []"
| "astype_float (x # xs) =
     (case float_of_raw x of
        Inl e \<Rightarrow> Inl e
      | Inr v \<Rightarrow> (case astype_float xs of Inl e \<Rightarrow> Inl e | Inr vs \<Rightarrow> Inr (v # vs)))"

text \<open>
  \<^verbatim>\<open>clean_money_optimized(series)\<close>, line 27. On a float64 column
  \<^verbatim>\<open>astype(str)\<close> writes each float as its \<^verbatim>\<open>repr\<close>, which has no \<^verbatim>\<open>$\<close>, no
  comma and no blank and which \<^verbatim>\<open>float\<close> reads back as the same float: the column
  comes back as it is.
\<close>

definition clean_money_optimized :: "column \<Rightarrow> exn + column" where
  "clean_money_optimized series =
     (case series of
        Float64 xs \<Rightarrow> Inr (Float64 xs)
      | Object xs \<Rightarrow>
          (case astype_float
                  (map replace_empty (map str_strip (map str_replace (map astype_str xs)))) of
             Inl e \<Rightarrow> Inl e
           | Inr vs \<Rightarrow> Inr (Float64 vs)))"

text \<open>What the text steps of line 27 make of one entry.\<close>

definition clean_cell :: "raw \<Rightarrow> raw" where
  "clean_cell x = replace_empty (str_strip (str_replace (astype_str x)))"

section \<open>\<^verbatim>\<open>pd.to_numeric(series, errors='coerce')\<close>\<close>

text \<open>
  pandas reads a text entry with its own C reader, \<^verbatim>\<open>floatify\<close> on top of
  \<^verbatim>\<open>precise_xstrtod\<close>. ASCII blanks around the number are skipped and there are no
  underscores. The reader works in doubles: it keeps the first 17 digits, adding each
  to ten times the number so far, counts the digits it drops into the exponent, and
  scales by a power of ten from its table. An exponent above 308 and a result that
  overflows are errors. The names of infinity are taken only when nothing surrounds
  them. With \<^verbatim>\<open>errors='coerce'\<close> every entry that cannot be read becomes NaN.
\<close>

definition isspace_ascii :: "char \<Rightarrow> bool" where
  "isspace_ascii c = (c \<in> {CHR 0x20, CHR 0x09, CHR 0x0A, CHR 0x0B, CHR 0x0C, CHR 0x0D})"

definition xstrtod_digits :: "string \<Rightarrow> rat" where
  "xstrtod_digits ds =
     foldl (\<lambda>a c. nearest_double (nearest_double (a * 10) + of_nat (digit_val c))) 0 ds"

definition power_of_ten :: "nat \<Rightarrow> rat" where
  "power_of_ten k = nearest_double (10 ^ k)"

definition xstrtod_scale :: "rat \<Rightarrow> int \<Rightarrow> rat" where
  "xstrtod_scale number exponent =
     (if 0 < exponent then nearest_double (number * power_of_ten (nat exponent))
      else if exponent < - 616 then 0
      else if exponent < - 308 then
        nearest_double
          (nearest_double (number / power_of_ten (nat (- 308 - exponent))) / power_of_ten 308)
      else nearest_double (number / power_of_ten (nat (- exponent))))"

definition precise_xstrtod :: "string \<Rightarrow> rat option" where
  "precise_xstrtod s =
     (let ip = takeWhile is_digit s;
          r1 = dropWhile is_digit s;
          (fp, r2) =
            (case r1 of
               [] \<Rightarrow> ([], r1)
             | c # r \<Rightarrow>
                 if c = CHR ''.'' then (takeWhile is_digit r, dropWhile is_digit r)
                 else ([], r1));
          kept_ip = take 17 ip;
          kept_fp = take (17 - length kept_ip) fp
      in if ip = [] \<and> fp = [] then None
         else if 17 < length (filter is_digit r2) then None
         else (case exponent_part r2 of
                 None \<Rightarrow> None
               | Some n \<Rightarrow>
                   (let exponent =
                          int (length ip) - int (length kept_ip) - int (length kept_fp) + n
                    in if 308 < exponent then None
                       else (let v = xstrtod_scale (xstrtod_digits (kept_ip @ kept_fp)) exponent
                             in if 2 ^ 1024 \<le> v then None else Some v))))"

definition to_double :: "string \<Rightarrow> rat option" where
  "to_double s =
     (let (neg, r) = split_sign (dropWhile isspace_ascii s)
      in map_option (\<lambda>q. if neg then - q else q)
           (precise_xstrtod (rev (dropWhile isspace_ascii (rev r)))))"

definition floatify :: "string \<Rightarrow> pyfloat option" where
  "floatify s =
     (case to_double s of
        Some q \<Rightarrow> Some (Fin q)
      | None \<Rightarrow>
          (let l = map to_lower s
           in if l \<in> {''inf'', ''+inf'', ''infinity'', ''+infinity''} then Some PInf
              else if l \<in> {''-inf'', ''-infinity''} then Some NInf
              else None))"

fun to_numeric_coerce :: "raw \<Rightarrow> pyfloat" where
  "to_numeric_coerce (Text s) =
     (if s = [] then NaN else (case floatify s of None \<Rightarrow> NaN | Some v \<Rightarrow> v))"
| "to_numeric_coerce (Whole n) = round_double (of_int n)"
| "to_numeric_coerce Missing = NaN"

definition to_numeric :: "column \<Rightarrow> column" where
  "to_numeric series =
     (case series of
        Float64 xs \<Rightarrow> Float64 xs
      | Object xs \<Rightarrow> Float64 (map to_numeric_coerce xs))"

text \<open>\<^verbatim>\<open>series.fillna(v)\<close> with an integer \<open>v\<close>.\<close>

definition fillna :: "int \<Rightarrow> column \<Rightarrow> column" where
  "fillna v series =
     (case series of
        Float64 xs \<Rightarrow> Float64 (map (\<lambda>x. if x = NaN then Fin (of_int v) else x) xs)
      | Object xs \<Rightarrow> Object (map (\<lambda>x. if x = Missing then Whole v else x) xs))"

section \<open>The DataFrame\<close>

text \<open>
  The columns in their order, each under its label. \<^verbatim>\<open>pd.read_csv\<close> makes the
  labels distinct and the columns of one length.
\<close>

type_synonym frame = "(string \<times> column) list"

definition columns :: "frame \<Rightarrow> string list" where
  "columns df = map fst df"

fun col_len :: "column \<Rightarrow> nat" where
  "col_len (Object xs) = length xs"
| "col_len (Float64 xs) = length xs"

definition well_formed :: "frame \<Rightarrow> bool" where
  "well_formed df =
     (distinct (columns df) \<and>
      (\<forall>c \<in> set (map snd df). \<forall>d \<in> set (map snd df). col_len c = col_len d))"

text \<open>\<^verbatim>\<open>df[col]\<close>: a missing label raises \<^verbatim>\<open>KeyError\<close>.\<close>

definition getcol :: "frame \<Rightarrow> string \<Rightarrow> exn + column" where
  "getcol df col = (case map_of df col of None \<Rightarrow> Inl (KeyError col) | Some c \<Rightarrow> Inr c)"

text \<open>\<^verbatim>\<open>df[col] = series\<close>: replaces the column in place, or appends a new one.\<close>

fun setcol :: "frame \<Rightarrow> string \<Rightarrow> column \<Rightarrow> frame" where
  "setcol [] col series = [(col, series)]"
| "setcol ((k, c) # df) col series =
     (if k = col then (col, series) # df else (k, c) # setcol df col series)"

text \<open>
  \<^verbatim>\<open>df[cols]\<close> with a list of labels: \<^verbatim>\<open>KeyError\<close> when one is missing. Its
  message, as pandas 2 words it, lists the missing labels, or the whole index when none
  of the labels is there (pandas breaks a long index over lines; the model writes it
  on one).
\<close>

fun comma_join :: "string list \<Rightarrow> string" where
  "comma_join [] = []"
| "comma_join [x] = x"
| "comma_join (x # y # zs) = x @ '', '' @ comma_join (y # zs)"

definition list_repr :: "string list \<Rightarrow> string" where
  "list_repr ks = ''['' @ comma_join (map py_repr ks) @ '']''"

definition not_in_index :: "string list \<Rightarrow> string list \<Rightarrow> string" where
  "not_in_index ks missing =
     (if length missing = length ks then
        ''None of [Index('' @ list_repr ks @ '', dtype='' @ py_repr ''object'' @
        '')] are in the [columns]''
      else list_repr missing @ '' not in index'')"

fun lookup_all :: "frame \<Rightarrow> string list \<Rightarrow> column list option" where
  "lookup_all df [] = Some []"
| "lookup_all df (k # ks) =
     (case map_of df k of
        None \<Rightarrow> None
      | Some c \<Rightarrow> map_option ((#) c) (lookup_all df ks))"

definition getcols :: "frame \<Rightarrow> string list \<Rightarrow> exn + column list" where
  "getcols df ks =
     (case lookup_all df ks of
        Some cs \<Rightarrow> Inr cs
      | None \<Rightarrow>
          Inl (KeyError (not_in_index ks (filter (\<lambda>k. k \<notin> set (columns df)) ks))))"

text \<open>\<^verbatim>\<open>df[cols] = sub\<close>\<close>

fun setcols :: "frame \<Rightarrow> string list \<Rightarrow> column list \<Rightarrow> frame" where
  "setcols df (k # ks) (c # cs) = setcols (setcol df k c) ks cs"
| "setcols df _ _ = df"

section \<open>The Dataset Loader\<close>

definition monetary_columns :: "string list" where
  "monetary_columns =
     [''SALARIO MENSUAL INDIVIDUAL'', ''Prestaciones AVG'',
      ''Prestaciones Ajustado'', ''Prima Servicios'',
      ''Cesant'' @ [CHR 0xED] @ ''as'', ''Intereses Cesantias'', ''Vacaciones'',
      ''SENA'', ''ICBF'', ''Caja de Compensaci'' @ [CHR 0xF3] @ ''n'',
      ''Salud'', ''Pensi'' @ [CHR 0xF3] @ ''n'', ''ARL (2% avg)'',
      ''Total Mensual (COP)'', ''Anual (COP)'',
      ''Mensual (USD)'', ''Anual (USD)'']"

text \<open>Lines 56 to 58: the loop over the monetary columns.\<close>

fun clean_loop :: "string list \<Rightarrow> frame \<Rightarrow> exn + frame" where
  "clean_loop [] df = Inr df"
| "clean_loop (col # cols) df =
     (if col \<in> set (columns df) then
        (case getcol df col of
           Inl e \<Rightarrow> Inl e
         | Inr series \<Rightarrow>
             (case clean_money_optimized series of
                Inl e \<Rightarrow> Inl e
              | Inr cleaned \<Rightarrow> clean_loop cols (setcol df col cleaned)))
      else clean_loop cols df)"

text \<open>Lines 44 to 67: the body of the \<^verbatim>\<open>try\<close> once the file is read.\<close>

definition load_body :: "frame \<Rightarrow> exn + frame" where
  "load_body df0 =
     (case clean_loop monetary_columns df0 of
        Inl e \<Rightarrow> Inl e
      | Inr df1 \<Rightarrow>
          (case getcol df1 ''CANTIDAD'' of
             Inl e \<Rightarrow> Inl e
           | Inr q \<Rightarrow>
               (let df2 = setcol df1 ''CANTIDAD'' (fillna 1 (to_numeric q))
                in (case getcols df2 monetary_columns of
                      Inl e \<Rightarrow> Inl e
                    | Inr sub \<Rightarrow> Inr (setcols df2 monetary_columns (map (fillna 0) sub))))))"

text \<open>
  \<^verbatim>\<open>str(e)\<close>. NumPy words the \<^verbatim>\<open>ValueError\<close> of \<^verbatim>\<open>astype(float)\<close> around the
  \<^verbatim>\<open>repr\<close> of the text, and the text of a \<^verbatim>\<open>KeyError\<close> is the \<^verbatim>\<open>repr\<close> of its
  argument.
\<close>

definition str_exn :: "exn \<Rightarrow> string" where
  "str_exn e =
     (case e of
        FileNotFoundError \<Rightarrow> []
      | ParserError m \<Rightarrow> m
      | ValueError t \<Rightarrow> ''could not convert string to float: '' @ py_repr t
      | KeyError a \<Rightarrow> py_repr a
      | TypeError m \<Rightarrow> m
      | OtherError m \<Rightarrow> m)"

text \<open>Lines 41 to 67: the \<^verbatim>\<open>try\<close> block. Its argument is what \<^verbatim>\<open>pd.read_csv\<close> does
  with the file: it raises, or it returns the raw table.\<close>

definition load_try :: "exn + frame \<Rightarrow> exn + frame" where
  "load_try read_csv = (case read_csv of Inl e \<Rightarrow> Inl e | Inr df \<Rightarrow> load_body df)"

text \<open>The texts of the four \<^verbatim>\<open>st.error\<close> calls, lines 69, 72, 75 and 201.\<close>

definition msg_not_found :: string where
  "msg_not_found =
     ''Error: El archivo Planta.csv no fue encontrado. Por favor, verifica la ruta y el nombre del archivo.''"

definition msg_parse :: "string \<Rightarrow> string" where
  "msg_parse m =
     ''Error al parsear el archivo CSV: '' @ m @
     ''. Verifica que el archivo tenga el formato correcto.''"

definition msg_unexpected :: "string \<Rightarrow> string" where
  "msg_unexpected m = ''Error inesperado al cargar los datos: '' @ m"

definition msg_no_data :: string where
  "msg_no_data =
     ''No se pudieron cargar los datos. Por favor, verifica que el archivo CSV existe y tiene el formato correcto.''"

text \<open>
  \<^verbatim>\<open>load_data_optimized()\<close>. The result is the list of the \<^verbatim>\<open>st.error\<close> messages
  shown and the value returned, \<open>None\<close> for Python's \<^verbatim>\<open>None\<close>. The three
  \<^verbatim>\<open>except\<close> clauses are tried in the order of the source.
\<close>

definition load_data_optimized :: "exn + frame \<Rightarrow> string list \<times> frame option" where
  "load_data_optimized read_csv =
     (case load_try read_csv of
        Inr df \<Rightarrow> ([], Some df)
      | Inl FileNotFoundError \<Rightarrow> ([msg_not_found], None)
      | Inl (ParserError m) \<Rightarrow> ([msg_parse m], None)
      | Inl e \<Rightarrow> ([msg_unexpected (str_exn e)], None))"

section \<open>The Filter Engine\<close>

text \<open>A value of either kind of column, as \<^verbatim>\<open>unique\<close> and \<^verbatim>\<open>isin\<close> see it.\<close>

datatype cell = Obj raw | Num pyfloat

fun cells :: "column \<Rightarrow> cell list" where
  "cells (Object xs) = map Obj xs"
| "cells (Float64 xs) = map Num xs"

fun first_seen :: "'a list \<Rightarrow> 'a list" where
  "first_seen [] = []"
| "first_seen (x # xs) = x # first_seen (filter (\<lambda>y. y \<noteq> x) xs)"

text \<open>\<^verbatim>\<open>series.unique()\<close>: the values in the order they first appear; NaN counts once.\<close>

definition unique :: "column \<Rightarrow> cell list" where
  "unique series = first_seen (cells series)"

text \<open>
  \<^verbatim>\<open>st.sidebar.multiselect(label, options=..., default=...)\<close> returns the options the
  user has left selected; \<open>chosen\<close> is the user's choice. With the widget untouched
  every option is chosen, as \<^verbatim>\<open>default\<close> is the list of all options.
\<close>

definition multiselect :: "cell list \<Rightarrow> (cell \<Rightarrow> bool) \<Rightarrow> cell list" where
  "multiselect options chosen = filter chosen options"

text \<open>\<^verbatim>\<open>series.isin(values)\<close>; pandas lets NaN match NaN there.\<close>

definition isin :: "column \<Rightarrow> cell list \<Rightarrow> bool list" where
  "isin series vals = map (\<lambda>c. c \<in> set vals) (cells series)"

text \<open>\<^verbatim>\<open>df[mask]\<close> with a boolean series: the rows where the series holds.\<close>

definition select :: "bool list \<Rightarrow> 'a list \<Rightarrow> 'a list" where
  "select keep xs = map snd (filter fst (zip keep xs))"

fun select_column :: "bool list \<Rightarrow> column \<Rightarrow> column" where
  "select_column keep (Object xs) = Object (select keep xs)"
| "select_column keep (Float64 xs) = Float64 (select keep xs)"

definition boolean_index :: "frame \<Rightarrow> bool list \<Rightarrow> frame" where
  "boolean_index df keep = map (\<lambda>(k, c). (k, select_column keep c)) df"

text \<open>Lines 101 to 104.\<close>

definition df_filtered :: "frame \<Rightarrow> cell list \<Rightarrow> cell list \<Rightarrow> exn + frame" where
  "df_filtered df departamento nivel =
     (case getcol df ''DEPARTAMENTO'' of
        Inl e \<Rightarrow> Inl e
      | Inr d \<Rightarrow>
          (case getcol df ''Nivel'' of
             Inl e \<Rightarrow> Inl e
           | Inr n \<Rightarrow>
               Inr (boolean_index df (map2 (\<and>) (isin d departamento) (isin n nivel)))))"

section \<open>Aggregation\<close>

fun fadd :: "pyfloat \<Rightarrow> pyfloat \<Rightarrow> pyfloat" where
  "fadd (Fin a) (Fin b) = Fin (a + b)"
| "fadd NaN _ = NaN"
| "fadd _ NaN = NaN"
| "fadd PInf NInf = NaN"
| "fadd NInf PInf = NaN"
| "fadd PInf _ = PInf"
| "fadd _ PInf = PInf"
| "fadd NInf _ = NInf"
| "fadd _ NInf = NInf"

text \<open>\<^verbatim>\<open>series.sum()\<close> and \<^verbatim>\<open>series.mean()\<close> skip NaN; the mean of nothing is NaN.\<close>

definition series_sum :: "pyfloat list \<Rightarrow> pyfloat" where
  "series_sum xs = foldl fadd (Fin 0) (filter (\<lambda>x. x \<noteq> NaN) xs)"

definition series_mean :: "pyfloat list \<Rightarrow> pyfloat" where
  "series_mean xs =
     (let ys = filter (\<lambda>x. x \<noteq> NaN) xs
      in if ys = [] then NaN
         else (case series_sum ys of
                 Fin s \<Rightarrow> Fin (s / of_nat (length ys))
               | v \<Rightarrow> v))"

text \<open>
  The aggregations read float64 columns: after a load the quantity and every monetary
  column are float64. An object column does not get there; the model raises
  \<^verbatim>\<open>TypeError\<close> for it.
\<close>

definition float_values :: "frame \<Rightarrow> string \<Rightarrow> exn + pyfloat list" where
  "float_values df col =
     (case getcol df col of
        Inl e \<Rightarrow> Inl e
      | Inr (Float64 xs) \<Rightarrow> Inr xs
      | Inr (Object xs) \<Rightarrow> Inl (TypeError col))"

text \<open>
  \<^verbatim>\<open>groupby(key)\<close>: one group for each key that is not NaN, the keys sorted
  (numbers before text), each group holding the rows of its key in their order.
\<close>

fun notna :: "cell \<Rightarrow> bool" where
  "notna (Obj Missing) = False"
| "notna (Num NaN) = False"
| "notna _ = True"

fun float_key :: "pyfloat \<Rightarrow> nat \<times> rat" where
  "float_key NInf = (0, 0)"
| "float_key (Fin r) = (1, r)"
| "float_key PInf = (2, 0)"
| "float_key NaN = (3, 0)"

fun cell_key :: "cell \<Rightarrow> (nat \<times> rat) \<times> string" where
  "cell_key (Obj (Text s)) = ((4, 0), s)"
| "cell_key (Obj (Whole n)) = ((1, of_int n), [])"
| "cell_key (Obj Missing) = ((3, 0), [])"
| "cell_key (Num v) = (float_key v, [])"

definition groupby :: "column \<Rightarrow> 'a list \<Rightarrow> (cell \<times> 'a list) list" where
  "groupby keys rows =
     map (\<lambda>k. (k, map snd (filter (\<lambda>(c, r). c = k) (zip (cells keys) rows))))
       (sort_key cell_key (first_seen (filter notna (cells keys))))"

text \<open>
  \<^verbatim>\<open>sort_values(ascending=True)\<close>: by value, NaN last. pandas sorts with quicksort,
  which may order equal values either way; the model keeps their order.
\<close>

definition sort_values :: "('a \<times> pyfloat) list \<Rightarrow> ('a \<times> pyfloat) list" where
  "sort_values kvs = sort_key (\<lambda>(k, v). float_key v) kvs"

text \<open>\<^verbatim>\<open>.round(2)\<close>\<close>

fun round2 :: "pyfloat \<Rightarrow> pyfloat" where
  "round2 (Fin r) = Fin (of_int (round_half_even (r * 100)) / 100)"
| "round2 v = v"

text \<open>The format \<^verbatim>\<open>{x:,.0f}\<close> of an f-string.\<close>

fun commas_rev :: "string \<Rightarrow> string" where
  "commas_rev (a # b # c # d # r) = a # b # c # CHR '','' # commas_rev (d # r)"
| "commas_rev r = r"

fun format_comma_0f :: "pyfloat \<Rightarrow> string" where
  "format_comma_0f NaN = ''nan''"
| "format_comma_0f PInf = ''inf''"
| "format_comma_0f NInf = ''-inf''"
| "format_comma_0f (Fin r) =
     (if r < 0 then ''-'' else []) @
     rev (commas_rev (rev (nat_digits (nat \<bar>round_half_even r\<bar>))))"

section \<open>The dashboard\<close>

text \<open>
  What the script computes for its panels from the filtered view. The drawing itself
  (Plotly, the Streamlit widgets) is outside the model; the box plot and the scatter
  plot take the view as it is.
\<close>

definition raise_or :: "exn + 'a \<Rightarrow> ('a \<Rightarrow> exn + 'b) \<Rightarrow> exn + 'b" where
  "raise_or r f = (case r of Inl e \<Rightarrow> Inl e | Inr x \<Rightarrow> f x)"

text \<open>Line 123: \<^verbatim>\<open>df_filtered.groupby("Nivel")["CANTIDAD"].sum()\<close>\<close>

definition nivel_cantidad :: "frame \<Rightarrow> exn + (cell \<times> pyfloat) list" where
  "nivel_cantidad dff =
     raise_or (getcol dff ''Nivel'') (\<lambda>n.
     raise_or (float_values dff ''CANTIDAD'') (\<lambda>q.
       Inr (map (\<lambda>(k, vs). (k, series_sum vs)) (groupby n q))))"

text \<open>Line 138, with \<^verbatim>\<open>sort_values(ascending=True)\<close>.\<close>

definition dept_costs :: "frame \<Rightarrow> exn + (cell \<times> pyfloat) list" where
  "dept_costs dff =
     raise_or (getcol dff ''DEPARTAMENTO'') (\<lambda>d.
     raise_or (float_values dff ''Total Mensual (COP)'') (\<lambda>c.
       Inr (sort_values (map (\<lambda>(k, vs). (k, series_sum vs)) (groupby d c)))))"

definition componentes :: "string list" where
  "componentes =
     [''Salud'', ''Pensi'' @ [CHR 0xF3] @ ''n'', ''ARL (2% avg)'', ''SENA'', ''ICBF'',
      ''Caja de Compensaci'' @ [CHR 0xF3] @ ''n'']"

text \<open>Line 165: \<^verbatim>\<open>df_filtered[componentes].mean()\<close>\<close>

fun column_means :: "frame \<Rightarrow> string list \<Rightarrow> exn + (string \<times> pyfloat) list" where
  "column_means dff [] = Inr []"
| "column_means dff (k # ks) =
     raise_or (float_values dff k) (\<lambda>xs.
     raise_or (column_means dff ks) (\<lambda>ms. Inr ((k, series_mean xs) # ms)))"

definition df_componentes :: "frame \<Rightarrow> exn + (string \<times> pyfloat) list" where
  "df_componentes dff = column_means dff componentes"

text \<open>Lines 180, 184 and 188: the three key figures.\<close>

definition total_empleados :: "frame \<Rightarrow> exn + pyfloat" where
  "total_empleados dff = raise_or (float_values dff ''CANTIDAD'') (\<lambda>q. Inr (series_sum q))"

definition costo_mensual :: "frame \<Rightarrow> exn + pyfloat" where
  "costo_mensual dff =
     raise_or (float_values dff ''Total Mensual (COP)'') (\<lambda>c. Inr (series_sum c))"

definition promedio_salario :: "frame \<Rightarrow> exn + pyfloat" where
  "promedio_salario dff =
     raise_or (float_values dff ''SALARIO MENSUAL INDIVIDUAL'') (\<lambda>s. Inr (series_mean s))"

text \<open>Lines 181, 185 and 189: the texts handed to \<^verbatim>\<open>st.metric\<close>.\<close>

definition metric_total_empleados :: "pyfloat \<Rightarrow> string \<times> string" where
  "metric_total_empleados x = (''Total Empleados'', format_comma_0f x)"

definition metric_costo_mensual :: "pyfloat \<Rightarrow> string \<times> string" where
  "metric_costo_mensual x = (''Costo Mensual Total'', ''$'' @ format_comma_0f x @ '' COP'')"

definition metric_promedio_salario :: "pyfloat \<Rightarrow> string \<times> string" where
  "metric_promedio_salario x = (''Salario Promedio'', ''$'' @ format_comma_0f x @ '' COP'')"

text \<open>Lines 193 to 197: the summary table, one row for each department.\<close>

definition resumen_dept :: "frame \<Rightarrow> exn + (cell \<times> pyfloat \<times> pyfloat \<times> pyfloat) list" where
  "resumen_dept dff =
     raise_or (getcol dff ''DEPARTAMENTO'') (\<lambda>d.
     raise_or (float_values dff ''CANTIDAD'') (\<lambda>q.
     raise_or (float_values dff ''SALARIO MENSUAL INDIVIDUAL'') (\<lambda>s.
     raise_or (float_values dff ''Total Mensual (COP)'') (\<lambda>c.
       Inr (map (\<lambda>k. (k,
                  round2 (series_sum (map snd (filter (\<lambda>(x, r). x = k) (zip (cells d) q)))),
                  round2 (series_mean (map snd (filter (\<lambda>(x, r). x = k) (zip (cells d) s)))),
                  round2 (series_sum (map snd (filter (\<lambda>(x, r). x = k) (zip (cells d) c))))))
              (map fst (groupby d q)))))))"

record panels =
  fig_bar :: "(cell \<times> pyfloat) list"
  fig_bar2 :: "(cell \<times> pyfloat) list"
  fig_pie :: "(string \<times> pyfloat) list"
  metrics :: "(string \<times> string) list"
  summary :: "(cell \<times> pyfloat \<times> pyfloat \<times> pyfloat) list"

text \<open>Lines 107 to 199, in the order of the source.\<close>

definition aggregate :: "frame \<Rightarrow> exn + panels" where
  "aggregate dff =
     raise_or (nivel_cantidad dff) (\<lambda>nc.
     raise_or (dept_costs dff) (\<lambda>dc.
     raise_or (df_componentes dff) (\<lambda>comp.
     raise_or (total_empleados dff) (\<lambda>te.
     raise_or (costo_mensual dff) (\<lambda>cm.
     raise_or (promedio_salario dff) (\<lambda>ps.
     raise_or (resumen_dept dff) (\<lambda>res.
       Inr \<lparr>fig_bar = nc, fig_bar2 = dc, fig_pie = comp,
            metrics = [metric_total_empleados te, metric_costo_mensual cm,
                       metric_promedio_salario ps],
            summary = res\<rparr>)))))))"

text \<open>
  The whole script, lines 80 to 201. Its inputs are what \<^verbatim>\<open>pd.read_csv\<close> does and
  the user's choices in the two sidebar widgets. It shows error messages and, when the
  data are there, the panels; an exception that nothing catches ends the run.
\<close>

definition script ::
  "exn + frame \<Rightarrow> (cell \<Rightarrow> bool) \<Rightarrow> (cell \<Rightarrow> bool) \<Rightarrow> exn + string list \<times> panels option" where
  "script read_csv chosen_departamento chosen_nivel =
     (case load_data_optimized read_csv of
        (shown, None) \<Rightarrow> Inr (shown @ [msg_no_data], None)
      | (shown, Some df) \<Rightarrow>
          raise_or (getcol df ''DEPARTAMENTO'') (\<lambda>d.
          raise_or (getcol df ''Nivel'') (\<lambda>n.
          raise_or (df_filtered df (multiselect (unique d) chosen_departamento)
                      (multiselect (unique n) chosen_nivel)) (\<lambda>dff.
          raise_or (aggregate dff) (\<lambda>p. Inr (shown, Some p))))))"

section \<open>The amount that a monetary text writes\<close>

text \<open>
  What the specification says of the Currency Parser, stated apart from the code. A
  monetary text is a plain decimal numeral with \<^verbatim>\<open>$\<close> and commas put in anywhere;
  \<open>with_symbols plain s\<close> says that \<open>s\<close> is such a writing of \<open>plain\<close>. The amount of
  a numeral is its whole part plus its fraction, each digit counted by its place.
\<close>

fun with_symbols :: "string \<Rightarrow> string \<Rightarrow> bool" where
  "with_symbols plain [] = (plain = [])"
| "with_symbols plain (c # s) =
     (if c = CHR ''$'' \<or> c = CHR '','' then with_symbols plain s
      else (case plain of [] \<Rightarrow> False | d # rest \<Rightarrow> d = c \<and> with_symbols rest s))"

fun number_of :: "string \<Rightarrow> nat" where
  "number_of [] = 0"
| "number_of (c # cs) = digit_val c * 10 ^ length cs + number_of cs"

definition decimal_amount :: "bool \<Rightarrow> string \<Rightarrow> string \<Rightarrow> rat" where
  "decimal_amount negative whole fraction =
     (let a = of_nat (number_of whole) + of_nat (number_of fraction) / 10 ^ length fraction
      in if negative then - a else a)"

section \<open>Example tables\<close>

text \<open>
  The table of the end-to-end scenario: three rows, departments A, A, B, quantities
  2, 3, 1, and the three cost texts in every monetary column.
\<close>

definition scenario_table :: frame where
  "scenario_table =
     [(''DEPARTAMENTO'', Object [Text ''A'', Text ''A'', Text ''B'']),
      (''Nivel'', Object [Text ''Senior'', Text ''Junior'', Text ''Senior'']),
      (''CANTIDAD'', Object [Whole 2, Whole 3, Whole 1])] @
     map (\<lambda>k. (k, Object [Text ''$1,000'', Text ''$2,000'', Text ''$500''])) monetary_columns"

definition scenario_loaded :: frame where
  "scenario_loaded =
     [(''DEPARTAMENTO'', Object [Text ''A'', Text ''A'', Text ''B'']),
      (''Nivel'', Object [Text ''Senior'', Text ''Junior'', Text ''Senior'']),
      (''CANTIDAD'', Float64 [Fin 2, Fin 3, Fin 1])] @
     map (\<lambda>k. (k, Float64 [Fin 1000, Fin 2000, Fin 500])) monetary_columns"

text \<open>
  A table with a quantity that is no number, a missing quantity, a blank amount and a
  missing amount.
\<close>

definition gaps_table :: frame where
  "gaps_table =
     [(''DEPARTAMENTO'', Object [Text ''Operaciones'', Text ''HSE'', Missing]),
      (''Nivel'', Object [Text ''Senior'', Text ''Junior'', Text ''Senior'']),
      (''CANTIDAD'', Object [Text ''n/a'', Missing, Whole 4])] @
     map (\<lambda>k. (k, Object [Text ''$1,234.50'', Text ''  '', Missing])) monetary_columns"

definition gaps_loaded :: frame where
  "gaps_loaded =
     [(''DEPARTAMENTO'', Object [Text ''Operaciones'', Text ''HSE'', Missing]),
      (''Nivel'', Object [Text ''Senior'', Text ''Junior'', Text ''Senior'']),
      (''CANTIDAD'', Float64 [Fin 1, Fin 1, Fin 4])] @
     map (\<lambda>k. (k, Float64 [Fin (2469 / 2), Fin 0, Fin 0])) monetary_columns"

section \<open>Evaluating the rounding\<close>

lemma floor_rat_numeral: "\<lfloor>(numeral a :: rat) / numeral b\<rfloor> = numeral a div numeral b"
  using floor_divide_of_int_eq [of "numeral a" "numeral b", where ?'a = rat] by simp

lemma floor_rat_neg_numeral:
  "\<lfloor>- ((numeral a :: rat) / numeral b)\<rfloor> = - numeral a div numeral b"
  using floor_divide_of_int_eq [of "- numeral a" "numeral b", where ?'a = rat] by simp

lemma ceiling_rat_numeral:
  "\<lceil>(numeral a :: rat) / numeral b\<rceil> = - (- numeral a div numeral b)"
  unfolding ceiling_def by (simp add: floor_rat_neg_numeral)

lemmas double_eval = round_double_def nearest_double_def floor_log2_def pow2_def
  round_half_even_def bit_length.simps Let_def floor_rat_numeral floor_rat_neg_numeral
  ceiling_rat_numeral

lemma round_double_small:
  "round_double 0 = Fin 0" "round_double 1 = Fin 1" "round_double 2 = Fin 2"
  "round_double 3 = Fin 3" "round_double 4 = Fin 4"
  by (simp_all add: double_eval)

lemma round_double_amounts:
  "round_double 500 = Fin 500" "round_double 1000 = Fin 1000" "round_double 2000 = Fin 2000"
  "round_double (2469 / 2) = Fin (2469 / 2)"
  by (simp_all add: double_eval)

section \<open>Properties of the text steps\<close>






lemma str_strip_blank: "list_all py_isspace s \<Longrightarrow> str_strip s = []"
proof -
  assume "list_all py_isspace s"
  then have h: "dropWhile py_isspace s = []" by (simp add: list_all_iff)
  show ?thesis unfolding str_strip_def h by simp
qed

lemma astype_float_iff:
  "astype_float xs = Inr vs \<longleftrightarrow> list_all2 (\<lambda>x v. float_of_raw x = Inr v) xs vs"
proof (induction xs arbitrary: vs)
  case Nil
  then show ?case by auto
next
  case (Cons x xs)
  show ?case
    by (cases vs) (auto split: sum.splits simp flip: Cons.IH)
qed

lemma astype_float_raises:
  "x \<in> set xs \<Longrightarrow> float_of_raw x = Inl e \<Longrightarrow> \<exists>e'. astype_float xs = Inl e'"
  by (induction xs) (auto split: sum.splits)


lemma clean_money_Object:
  "clean_money_optimized (Object xs) =
     (case astype_float (map clean_cell xs) of Inl e \<Rightarrow> Inl e | Inr vs \<Rightarrow> Inr (Float64 vs))"
  by (simp add: clean_money_optimized_def clean_cell_def [abs_def] comp_def)


lemma clean_cell_blank:
  "list_all py_isspace s \<Longrightarrow> clean_cell (Text s) = Missing"
proof -
  assume a: "list_all py_isspace s"
  have "list_all py_isspace (str_replace s)"
    using a by (simp add: str_replace_def list_all_iff)
  then show ?thesis
    by (simp add: clean_cell_def replace_empty_def str_strip_blank)
qed

lemma getcol_setcol:
  "getcol (setcol df k c) k' = (if k' = k then Inr c else getcol df k')"
  by (induction df k c rule: setcol.induct) (auto simp: getcol_def)

lemma columns_setcol:
  "columns (setcol df k c) = (if k \<in> set (columns df) then columns df else columns df @ [k])"
  by (induction df k c rule: setcol.induct) (auto simp: columns_def)

lemma getcol_Inr_iff: "(\<exists>c. getcol df k = Inr c) \<longleftrightarrow> k \<in> set (columns df)"
  by (auto simp: getcol_def columns_def map_of_eq_None_iff split: option.splits)
   (metis domI domIff map_of_eq_None_iff)

lemma getcol_KeyError: "getcol df k = Inl e \<Longrightarrow> e = KeyError k \<and> k \<notin> set (columns df)"
  by (auto simp: getcol_def columns_def map_of_eq_None_iff split: option.splits)

lemma clean_money_Float64: "clean_money_optimized (Float64 xs) = Inr (Float64 xs)"
  by (simp add: clean_money_optimized_def)

lemma clean_money_result: "clean_money_optimized s = Inr c \<Longrightarrow> \<exists>vs. c = Float64 vs"
  by (auto simp: clean_money_optimized_def split: column.splits sum.splits)

lemma clean_money_twice:
  "clean_money_optimized s = Inr c \<Longrightarrow> clean_money_optimized c = Inr c"
  using clean_money_result clean_money_Float64 by blast

lemma clean_loop_columns: "clean_loop cols df = Inr df' \<Longrightarrow> columns df' = columns df"
proof (induction cols arbitrary: df)
  case Nil
  then show ?case by simp
next
  case (Cons col cols)
  show ?case
  proof (cases "col \<in> set (columns df)")
    case True
    with Cons.prems obtain s c where
      "getcol df col = Inr s" "clean_money_optimized s = Inr c"
      "clean_loop cols (setcol df col c) = Inr df'"
      by (auto split: sum.splits)
    with Cons.IH [of "setcol df col c"] True show ?thesis
      by (simp add: columns_setcol)
  next
    case False
    with Cons show ?thesis by simp
  qed
qed

lemma clean_loop_other:
  "clean_loop cols df = Inr df' \<Longrightarrow> k \<notin> set cols \<Longrightarrow> getcol df' k = getcol df k"
proof (induction cols arbitrary: df)
  case Nil
  then show ?case by simp
next
  case (Cons col cols)
  show ?case
  proof (cases "col \<in> set (columns df)")
    case True
    with Cons.prems obtain s c where
      "clean_loop cols (setcol df col c) = Inr df'"
      by (auto split: sum.splits)
    with Cons.IH [of "setcol df col c"] Cons.prems(2) show ?thesis
      by (simp add: getcol_setcol)
  next
    case False
    with Cons show ?thesis by simp
  qed
qed

lemma clean_loop_cleaned:
  "clean_loop cols df = Inr df' \<Longrightarrow> k \<in> set cols \<Longrightarrow> getcol df k = Inr s \<Longrightarrow>
   \<exists>c. clean_money_optimized s = Inr c \<and> getcol df' k = Inr c"
proof (induction cols arbitrary: df s)
  case Nil
  then show ?case by simp
next
  case (Cons col cols)
  show ?case
  proof (cases "col \<in> set (columns df)")
    case True
    with Cons.prems(1) obtain s' c' where
      s': "getcol df col = Inr s'" and c': "clean_money_optimized s' = Inr c'"
      and rest: "clean_loop cols (setcol df col c') = Inr df'"
      by (auto split: sum.splits)
    show ?thesis
    proof (cases "k = col")
      case keq: True
      then have ss: "s' = s" using s' Cons.prems(3) by simp
      show ?thesis
      proof (cases "k \<in> set cols")
        case True
        have "getcol (setcol df col c') k = Inr c'" using keq by (simp add: getcol_setcol)
        from Cons.IH [OF rest True this] obtain c where
          "clean_money_optimized c' = Inr c" "getcol df' k = Inr c" by blast
        with c' ss clean_money_twice [OF c'] show ?thesis by simp
      next
        case False
        from clean_loop_other [OF rest False] keq c' ss show ?thesis
          by (simp add: getcol_setcol)
      qed
    next
      case kne: False
      then have kin: "k \<in> set cols" using Cons.prems(2) by simp
      have "getcol (setcol df col c') k = Inr s"
        using kne Cons.prems(3) by (simp add: getcol_setcol)
      from Cons.IH [OF rest kin this] show ?thesis .
    qed
  next
    case False
    then have rest: "clean_loop cols df = Inr df'" using Cons.prems(1) by simp
    have "k \<noteq> col" using False Cons.prems(3) getcol_Inr_iff by blast
    then have "k \<in> set cols" using Cons.prems(2) by simp
    from Cons.IH [OF rest this Cons.prems(3)] show ?thesis .
  qed
qed

lemma getcol_map_of: "getcol df k = Inr c \<longleftrightarrow> map_of df k = Some c"
  by (simp add: getcol_def split: option.splits)

lemma lookup_all_map_of:
  "lookup_all df ks = Some cs \<longleftrightarrow> list_all2 (\<lambda>k c. map_of df k = Some c) ks cs"
proof (induction ks arbitrary: cs)
  case Nil
  then show ?case by auto
next
  case (Cons k ks)
  show ?case
    by (cases cs) (auto split: option.splits simp flip: Cons.IH)
qed

lemma lookup_all_getcol:
  "lookup_all df ks = Some cs \<longleftrightarrow> list_all2 (\<lambda>k c. getcol df k = Inr c) ks cs"
  by (simp only: lookup_all_map_of getcol_map_of)

lemma getcols_Inr: "getcols df ks = Inr cs \<longleftrightarrow> lookup_all df ks = Some cs"
  by (simp add: getcols_def split: option.splits)

lemma getcols_nth:
  "getcols df ks = Inr cs \<Longrightarrow>
   length cs = length ks \<and> (\<forall>i < length ks. getcol df (ks ! i) = Inr (cs ! i))"
  by (simp add: getcols_Inr lookup_all_getcol list_all2_conv_all_nth)

lemma getcols_raises: "getcols df ks = Inl e \<Longrightarrow> \<exists>m. e = KeyError m"
  by (auto simp: getcols_def split: option.splits)

lemma getcols_missing:
  assumes "k \<in> set ks" and "k \<notin> set (columns df)"
  shows "\<exists>k'. getcols df ks = Inl (KeyError k')"
proof (cases "getcols df ks")
  case (Inl e)
  with getcols_raises show ?thesis by blast
next
  case (Inr cs)
  from assms(1) obtain i where i: "i < length ks" "ks ! i = k"
    by (auto simp: in_set_conv_nth)
  with getcols_nth [OF Inr] have "getcol df k = Inr (cs ! i)" by auto
  with assms(2) getcol_Inr_iff show ?thesis by blast
qed

lemma getcols_present:
  "\<forall>k \<in> set ks. k \<in> set (columns df) \<Longrightarrow> \<exists>cs. getcols df ks = Inr cs"
proof (induction ks)
  case Nil
  then show ?case by (simp add: getcols_def)
next
  case (Cons k ks)
  then obtain cs where "lookup_all df ks = Some cs" by (auto simp: getcols_Inr)
  moreover from Cons.prems obtain c where "getcol df k = Inr c"
    using getcol_Inr_iff [of df k] by auto
  ultimately show ?case
    by (auto simp: getcols_Inr getcol_map_of)
qed

lemma getcol_setcols_other:
  "k \<notin> set ks \<Longrightarrow> getcol (setcols df ks cs) k = getcol df k"
  by (induction df ks cs rule: setcols.induct) (auto simp: getcol_setcol)

lemma getcol_setcols_nth:
  "distinct ks \<Longrightarrow> length cs = length ks \<Longrightarrow> i < length ks \<Longrightarrow>
   getcol (setcols df ks cs) (ks ! i) = Inr (cs ! i)"
proof (induction df ks cs arbitrary: i rule: setcols.induct)
  case (1 df k ks c cs)
  show ?case
  proof (cases i)
    case 0
    with "1.prems" show ?thesis
      by (simp add: getcol_setcols_other getcol_setcol)
  next
    case (Suc j)
    with "1.prems" "1.IH" [of j] show ?thesis by simp
  qed
qed simp_all



section \<open>What the loader does to each column\<close>


lemma monetary_distinct: "distinct monetary_columns"
  by (simp add: monetary_columns_def)

lemma cantidad_not_monetary: "''CANTIDAD'' \<notin> set monetary_columns"
  by (simp add: monetary_columns_def)

lemma load_body_steps:
  assumes "load_body df0 = Inr t"
  obtains df1 q sub where
    "clean_loop monetary_columns df0 = Inr df1"
    "getcol df1 ''CANTIDAD'' = Inr q"
    "getcols (setcol df1 ''CANTIDAD'' (fillna 1 (to_numeric q))) monetary_columns = Inr sub"
    "t = setcols (setcol df1 ''CANTIDAD'' (fillna 1 (to_numeric q))) monetary_columns
           (map (fillna 0) sub)"
  using assms unfolding load_body_def Let_def
  by (auto split: sum.splits)

lemma load_body_monetary:
  assumes t: "load_body df0 = Inr t"
    and k: "k \<in> set monetary_columns"
    and s: "getcol df0 k = Inr s"
  shows "\<exists>c. clean_money_optimized s = Inr c \<and> getcol t k = Inr (fillna 0 c)"
proof -
  from t obtain df1 q sub where
    l: "clean_loop monetary_columns df0 = Inr df1"
    and g: "getcols (setcol df1 ''CANTIDAD'' (fillna 1 (to_numeric q))) monetary_columns = Inr sub"
    and e: "t = setcols (setcol df1 ''CANTIDAD'' (fillna 1 (to_numeric q))) monetary_columns
           (map (fillna 0) sub)"
    by (rule load_body_steps)
  from clean_loop_cleaned [OF l k s] obtain c where
    c: "clean_money_optimized s = Inr c" and c1: "getcol df1 k = Inr c" by blast
  from k obtain i where i: "i < length monetary_columns" "monetary_columns ! i = k"
    by (auto simp: in_set_conv_nth)
  have kne: "k \<noteq> ''CANTIDAD''" using k cantidad_not_monetary by auto
  let ?df2 = "setcol df1 ''CANTIDAD'' (fillna 1 (to_numeric q))"
  have c2: "getcol ?df2 k = Inr c" using c1 kne by (simp add: getcol_setcol)
  from getcols_nth [OF g] i c2 have len: "length sub = length monetary_columns"
    and si: "sub ! i = c" by auto
  have "getcol t (monetary_columns ! i) = Inr (map (fillna 0) sub ! i)"
    unfolding e using monetary_distinct len i(1) by (intro getcol_setcols_nth) simp_all
  then show ?thesis using c i len si by auto
qed

lemma load_body_cantidad:
  assumes t: "load_body df0 = Inr t"
  shows "\<exists>q. getcol df0 ''CANTIDAD'' = Inr q \<and>
             getcol t ''CANTIDAD'' = Inr (fillna 1 (to_numeric q))"
proof -
  from t obtain df1 q sub where
    l: "clean_loop monetary_columns df0 = Inr df1"
    and q: "getcol df1 ''CANTIDAD'' = Inr q"
    and e: "t = setcols (setcol df1 ''CANTIDAD'' (fillna 1 (to_numeric q))) monetary_columns
           (map (fillna 0) sub)"
    by (rule load_body_steps)
  have "getcol df0 ''CANTIDAD'' = Inr q"
    using clean_loop_other [OF l cantidad_not_monetary] q by simp
  moreover have "getcol t ''CANTIDAD'' = Inr (fillna 1 (to_numeric q))"
    unfolding e using cantidad_not_monetary
    by (simp add: getcol_setcols_other getcol_setcol)
  ultimately show ?thesis by blast
qed

lemma load_body_untouched:
  assumes t: "load_body df0 = Inr t"
    and k: "k \<notin> set monetary_columns" "k \<noteq> ''CANTIDAD''"
  shows "getcol t k = getcol df0 k"
proof -
  from t obtain df1 q sub where
    l: "clean_loop monetary_columns df0 = Inr df1"
    and e: "t = setcols (setcol df1 ''CANTIDAD'' (fillna 1 (to_numeric q))) monetary_columns
           (map (fillna 0) sub)"
    by (rule load_body_steps)
  show ?thesis
    unfolding e using k clean_loop_other [OF l k(1)]
    by (simp add: getcol_setcols_other getcol_setcol)
qed

lemma load_Some:
  "load_data_optimized (Inr df0) = (msgs, Some t) \<Longrightarrow> load_body df0 = Inr t"
  by (auto simp: load_data_optimized_def load_try_def split: sum.splits exn.splits)

lemma load_body_missing_column:
  assumes k: "k \<in> set monetary_columns" and n: "k \<notin> set (columns df0)"
  shows "\<exists>e. load_body df0 = Inl e"
proof (cases "load_body df0")
  case (Inl e)
  then show ?thesis by blast
next
  case (Inr t)
  then obtain df1 q sub where
    l: "clean_loop monetary_columns df0 = Inr df1"
    and g: "getcols (setcol df1 ''CANTIDAD'' (fillna 1 (to_numeric q))) monetary_columns = Inr sub"
    by (rule load_body_steps)
  have kne: "k \<noteq> ''CANTIDAD''" using k cantidad_not_monetary by auto
  have "k \<notin> set (columns (setcol df1 ''CANTIDAD'' (fillna 1 (to_numeric q))))"
    using n kne clean_loop_columns [OF l] by (simp add: columns_setcol)
  from getcols_missing [OF k this] g show ?thesis by simp
qed



section \<open>The example tables, loaded\<close>


lemmas text_eval = py_float_def str_strip_def py_isspace_def is_digit_def float_literal_def
  split_sign_def number_body_def exponent_part_def scale10_def digit_val_def to_lower_def
  str_replace_def replace_empty_def round_double_amounts

lemmas load_eval = load_data_optimized_def load_try_def load_body_def monetary_columns_def columns_def
  getcol_def getcols_def to_numeric_def fillna_def round_double_small

lemma scenario_money:
  "clean_money_optimized (Object [Text ''$1,000'', Text ''$2,000'', Text ''$500'']) =
   Inr (Float64 [Fin 1000, Fin 2000, Fin 500])"
  by (simp add: clean_money_optimized_def text_eval)

lemma scenario_load: "load_data_optimized (Inr scenario_table) = ([], Some scenario_loaded)"
  by (simp add: load_eval scenario_table_def scenario_loaded_def scenario_money)

lemma gaps_money:
  "clean_money_optimized (Object [Text ''$1,234.50'', Text ''  '', Missing]) =
   Inr (Float64 [Fin (2469 / 2), NaN, NaN])"
  by (simp add: clean_money_optimized_def text_eval)

lemma floatify_na: "floatify ''n/a'' = None"
  by (simp add: floatify_def to_double_def precise_xstrtod_def isspace_ascii_def text_eval)

lemma gaps_load: "load_data_optimized (Inr gaps_table) = ([], Some gaps_loaded)"
  by (simp add: load_eval gaps_table_def gaps_loaded_def gaps_money floatify_na)



section \<open>The Currency Parser and the Dataset Loader\<close>




lemma fillna_Float64_nth:
  "i < length vs \<Longrightarrow> vs ! i = NaN \<Longrightarrow>
   \<exists>ys. fillna n (Float64 vs) = Float64 ys \<and> ys ! i = Fin (of_int n)"
  by (simp add: fillna_def)

lemma clean_money_nth:
  assumes "clean_money_optimized (Object xs) = Inr (Float64 vs)" and "i < length xs"
  shows "length vs = length xs \<and> float_of_raw (clean_cell (xs ! i)) = Inr (vs ! i)"
proof -
  from assms(1) have "astype_float (map clean_cell xs) = Inr vs"
    by (simp add: clean_money_Object split: sum.splits)
  then have "list_all2 (\<lambda>x v. float_of_raw x = Inr v) (map clean_cell xs) vs"
    by (simp only: astype_float_iff)
  then show ?thesis using assms(2)
    by (auto simp: list_all2_conv_all_nth)
qed

text \<open>
  Claim C3. An empty or blank text in a monetary column: the parser gives NaN for it,
  alone and at its place in the column, and the loaded table holds 0 there.
\<close>

theorem blank_money_is_missing_then_zero:
  assumes "load_data_optimized (Inr df) = (shown, Some t)"
    and "col \<in> set monetary_columns"
    and "getcol df col = Inr (Object xs)"
    and "i < length xs"
    and "xs ! i = Text s"
    and "list_all py_isspace s"
  shows "clean_money_optimized (Object [Text s]) = Inr (Float64 [NaN]) \<and>
         (\<exists>vs ys. clean_money_optimized (Object xs) = Inr (Float64 vs) \<and> vs ! i = NaN \<and>
                  getcol t col = Inr (Float64 ys) \<and> ys ! i = Fin 0)"
proof -
  have one: "clean_money_optimized (Object [Text s]) = Inr (Float64 [NaN])"
    using assms(6) by (simp add: clean_money_Object clean_cell_blank)
  from load_body_monetary [OF load_Some [OF assms(1)] assms(2) assms(3)] obtain c where
    c: "clean_money_optimized (Object xs) = Inr c" and g: "getcol t col = Inr (fillna 0 c)"
    by blast
  from clean_money_result [OF c] obtain vs where vs: "c = Float64 vs" by blast
  from clean_money_nth [OF c [unfolded vs] assms(4)] assms(5) assms(6)
  have len: "length vs = length xs" and nan: "vs ! i = NaN"
    by (simp_all add: clean_cell_blank)
  from fillna_Float64_nth [of i vs 0] len nan assms(4) obtain ys where
    "fillna 0 (Float64 vs) = Float64 ys" "ys ! i = Fin 0" by auto
  with one c g vs nan show ?thesis by auto
qed

lemma gaps_salud: "getcol gaps_table ''Salud'' = Inr (Object [Text ''$1,234.50'', Text ''  '', Missing])"
  by (simp add: getcol_def gaps_table_def monetary_columns_def)

theorem blank_money_is_missing_then_zero_witness:
  "list_all py_isspace ''  '' \<and>
   clean_money_optimized (Object [Text ''  '']) = Inr (Float64 [NaN]) \<and>
   (\<exists>vs ys. clean_money_optimized (Object [Text ''$1,234.50'', Text ''  '', Missing]) =
              Inr (Float64 vs) \<and> vs ! 1 = NaN \<and>
            getcol gaps_loaded ''Salud'' = Inr (Float64 ys) \<and> ys ! 1 = Fin 0)"
proof -
  have h2: "''Salud'' \<in> set monetary_columns" by (simp add: monetary_columns_def)
  have h4: "1 < length [Text ''$1,234.50'', Text ''  '', Missing]" by simp
  have h5: "[Text ''$1,234.50'', Text ''  '', Missing] ! 1 = Text ''  ''" by simp
  have h6: "list_all py_isspace ''  ''" by (simp add: py_isspace_def)
  from h6 blank_money_is_missing_then_zero [OF gaps_load h2 gaps_salud h4 h5 h6]
  show ?thesis by blast
qed




lemma float_of_raw_raises: "float_of_raw x = Inl e \<Longrightarrow> \<exists>m. e = ValueError m"
  by (cases x) (auto split: option.splits)

lemma astype_float_ValueError: "astype_float xs = Inl e \<Longrightarrow> \<exists>m. e = ValueError m"
  by (induction xs) (auto split: sum.splits dest: float_of_raw_raises)

lemma clean_money_ValueError: "clean_money_optimized s = Inl e \<Longrightarrow> \<exists>m. e = ValueError m"
  by (auto simp: clean_money_optimized_def split: column.splits sum.splits
      dest: astype_float_ValueError)

lemma clean_loop_raises:
  "clean_loop cols df = Inl e \<Longrightarrow> (\<exists>m. e = ValueError m) \<or> (\<exists>m. e = KeyError m)"
proof (induction cols arbitrary: df)
  case Nil
  then show ?case by simp
next
  case (Cons col cols)
  then show ?case
    by (auto split: if_splits sum.splits dest: getcol_KeyError clean_money_ValueError)
qed

lemma load_body_raises:
  "load_body df = Inl e \<Longrightarrow> (\<exists>m. e = ValueError m) \<or> (\<exists>m. e = KeyError m)"
  unfolding load_body_def Let_def
  by (auto split: sum.splits dest: clean_loop_raises getcol_KeyError getcols_raises)

text \<open>
  Claim C10. When the table lacks one of the monetary columns the load returns
  \<^verbatim>\<open>None\<close>, with the message of the last \<^verbatim>\<open>except\<close> clause: line 65 asks for all
  of them.
\<close>

theorem missing_monetary_column_fails_load:
  assumes "col \<in> set monetary_columns" and "col \<notin> set (columns df)"
  shows "\<exists>m. load_data_optimized (Inr df) = ([msg_unexpected m], None)"
proof -
  from load_body_missing_column [OF assms] obtain e where e: "load_body df = Inl e" by blast
  from load_body_raises [OF e] e show ?thesis
    by (auto simp: load_data_optimized_def load_try_def str_exn_def)
qed

theorem missing_monetary_column_fails_load_witness:
  "''Anual (USD)'' \<in> set monetary_columns \<and>
   ''Anual (USD)'' \<notin> set (columns (butlast scenario_table)) \<and>
   (\<exists>m. load_data_optimized (Inr (butlast scenario_table)) = ([msg_unexpected m], None))"
proof -
  have h1: "''Anual (USD)'' \<in> set monetary_columns" by (simp add: monetary_columns_def)
  have h2: "''Anual (USD)'' \<notin> set (columns (butlast scenario_table))"
    by (simp add: columns_def scenario_table_def monetary_columns_def)
  from h1 h2 missing_monetary_column_fails_load [OF h1 h2] show ?thesis by blast
qed

text \<open>
  Claim C9. The \<^verbatim>\<open>try\<close> block either returns the table, which is then the result
  with no message, or raises. An exception falls in one of three classes, by the first
  \<^verbatim>\<open>except\<close> clause that takes it: file not found, parser error, anything else. In
  each the loader shows one message, of that class, and returns \<^verbatim>\<open>None\<close>; the script
  then shows the no-data message and no panel. The three messages differ.
\<close>

theorem load_failure_reported:
  "(case load_try read_csv of
      Inr df \<Rightarrow> load_data_optimized read_csv = ([], Some df)
    | Inl e \<Rightarrow>
        (\<exists>msg. load_data_optimized read_csv = ([msg], None) \<and>
               script read_csv chosen_departamento chosen_nivel = Inr ([msg, msg_no_data], None) \<and>
               (e = FileNotFoundError \<longrightarrow> msg = msg_not_found) \<and>
               (\<forall>m. e = ParserError m \<longrightarrow> msg = msg_parse m) \<and>
               (e \<noteq> FileNotFoundError \<and> (\<forall>m. e \<noteq> ParserError m) \<longrightarrow>
                  msg = msg_unexpected (str_exn e)))) \<and>
   msg_not_found \<noteq> msg_parse m1 \<and> msg_not_found \<noteq> msg_unexpected m2 \<and>
   msg_parse m1 \<noteq> msg_unexpected m2"
proof -
  have "msg_not_found \<noteq> msg_parse m1" "msg_not_found \<noteq> msg_unexpected m2"
    "msg_parse m1 \<noteq> msg_unexpected m2"
    by (simp_all add: msg_not_found_def msg_parse_def msg_unexpected_def)
  moreover have "load_data_optimized read_csv = ([], Some df)"
    if "load_try read_csv = Inr df" for df
    using that by (simp add: load_data_optimized_def)
  moreover have "\<exists>msg. load_data_optimized read_csv = ([msg], None) \<and>
               script read_csv chosen_departamento chosen_nivel = Inr ([msg, msg_no_data], None) \<and>
               (e = FileNotFoundError \<longrightarrow> msg = msg_not_found) \<and>
               (\<forall>m. e = ParserError m \<longrightarrow> msg = msg_parse m) \<and>
               (e \<noteq> FileNotFoundError \<and> (\<forall>m. e \<noteq> ParserError m) \<longrightarrow>
                  msg = msg_unexpected (str_exn e))"
    if "load_try read_csv = Inl e" for e
    using that by (cases e) (simp_all add: load_data_optimized_def script_def)
  ultimately show ?thesis by (simp split: sum.splits)
qed

theorem load_failure_reported_witness:
  "load_data_optimized (Inl FileNotFoundError) = ([msg_not_found], None) \<and>
   script (Inl FileNotFoundError) (\<lambda>_. True) (\<lambda>_. True) =
     Inr ([msg_not_found, msg_no_data], None) \<and>
   load_data_optimized (Inl (ParserError ''Error tokenizing data'')) =
     ([msg_parse ''Error tokenizing data''], None) \<and>
   script (Inl (ParserError ''Error tokenizing data'')) (\<lambda>_. True) (\<lambda>_. True) =
     Inr ([msg_parse ''Error tokenizing data'', msg_no_data], None) \<and>
   load_data_optimized (Inl (OtherError ''Permission denied'')) =
     ([msg_unexpected ''Permission denied''], None) \<and>
   script (Inl (OtherError ''Permission denied'')) (\<lambda>_. True) (\<lambda>_. True) =
     Inr ([msg_unexpected ''Permission denied'', msg_no_data], None) \<and>
   load_data_optimized (Inr []) = ([msg_unexpected (str_exn (KeyError ''CANTIDAD''))], None)"
proof -
  have a: "load_try (Inl FileNotFoundError) = Inl FileNotFoundError"
    and b: "load_try (Inl (ParserError ''Error tokenizing data'')) =
            Inl (ParserError ''Error tokenizing data'')"
    and c: "load_try (Inl (OtherError ''Permission denied'')) =
            Inl (OtherError ''Permission denied'')"
    and d: "load_try (Inr []) = Inl (KeyError ''CANTIDAD'')"
    by (simp_all add: load_try_def load_body_def monetary_columns_def columns_def getcol_def)
  from load_failure_reported [of "Inl FileNotFoundError" "\<lambda>_. True" "\<lambda>_. True"]
    load_failure_reported [of "Inl (ParserError ''Error tokenizing data'')" "\<lambda>_. True" "\<lambda>_. True"]
    load_failure_reported [of "Inl (OtherError ''Permission denied'')" "\<lambda>_. True" "\<lambda>_. True"]
    load_failure_reported [of "Inr []" "\<lambda>_. True" "\<lambda>_. True"]
  show ?thesis
    by (simp add: a b c d str_exn_def)
qed



lemma unparseable_money_raises:
  assumes "x \<in> set xs" and "float_of_raw (clean_cell x) = Inl e"
  shows "\<exists>m. clean_money_optimized (Object xs) = Inl (ValueError m)"
proof -
  from assms have "clean_cell x \<in> set (map clean_cell xs)" by simp
  from astype_float_raises [OF this assms(2)] obtain e' where
    e': "astype_float (map clean_cell xs) = Inl e'" by blast
  from astype_float_ValueError [OF e'] e' show ?thesis
    by (auto simp: clean_money_Object)
qed

text \<open>
  Claim C1. A monetary text that is no number after the cleaning, here a salary written
  with points between the thousands: \<^verbatim>\<open>astype(float)\<close> raises \<^verbatim>\<open>ValueError\<close>, the
  parser returns no series, and the load returns \<^verbatim>\<open>None\<close> with the message of the
  last \<^verbatim>\<open>except\<close> clause.
\<close>

theorem unparseable_money_aborts_load:
  "clean_money_optimized (Object [Text ''$1,000'', Text ''$ 1.234.567'']) =
     Inl (ValueError ''1.234.567'') \<and>
   load_data_optimized
     (Inr (setcol scenario_table ''SALARIO MENSUAL INDIVIDUAL''
             (Object [Text ''$1,000'', Text ''$ 1.234.567'', Text ''$500'']))) =
     ([msg_unexpected (str_exn (ValueError ''1.234.567''))], None)"
proof -
  have a: "clean_money_optimized (Object [Text ''$1,000'', Text ''$ 1.234.567'']) =
     Inl (ValueError ''1.234.567'')"
    by (simp add: clean_money_optimized_def text_eval)
  have b: "clean_money_optimized (Object [Text ''$1,000'', Text ''$ 1.234.567'', Text ''$500'']) =
     Inl (ValueError ''1.234.567'')"
    by (simp add: clean_money_optimized_def text_eval)
  have "load_data_optimized
     (Inr (setcol scenario_table ''SALARIO MENSUAL INDIVIDUAL''
             (Object [Text ''$1,000'', Text ''$ 1.234.567'', Text ''$500'']))) =
     ([msg_unexpected (str_exn (ValueError ''1.234.567''))], None)"
    by (simp add: load_eval scenario_table_def b)
  with a show ?thesis by simp
qed


section \<open>Properties of the filter\<close>


lemma set_first_seen: "set (first_seen xs) = set xs"
  by (induction xs rule: first_seen.induct) auto

lemma length_cells: "length (cells s) = col_len s"
  by (cases s) simp_all

lemma isin_unique: "isin s (unique s) = replicate (col_len s) True"
proof -
  have "map (\<lambda>c. c \<in> set (cells s)) (cells s) = map (\<lambda>c. True) (cells s)"
    by (rule map_cong) simp_all
  then show ?thesis
    by (simp add: isin_def unique_def set_first_seen map_replicate_const length_cells)
qed



lemma multiselect_all: "multiselect opts (\<lambda>_. True) = opts"
  by (simp add: multiselect_def)

lemma multiselect_none: "multiselect opts (\<lambda>_. False) = []"
  by (simp add: multiselect_def)

lemma select_all: "length xs \<le> n \<Longrightarrow> select (replicate n True) xs = xs"
proof (induction xs arbitrary: n)
  case Nil
  then show ?case by (simp add: select_def)
next
  case (Cons x xs)
  then obtain m where "n = Suc m" by (cases n) auto
  with Cons show ?case by (simp add: select_def)
qed

lemma select_none: "\<forall>b \<in> set keep. \<not> b \<Longrightarrow> select keep xs = []"
  by (auto simp: select_def filter_empty_conv dest: set_zip_leftD)

lemma select_column_all: "col_len c \<le> n \<Longrightarrow> select_column (replicate n True) c = c"
  by (cases c) (simp_all add: select_all)

lemma select_column_none: "\<forall>b \<in> set keep. \<not> b \<Longrightarrow> col_len (select_column keep c) = 0"
  by (cases c) (simp_all add: select_none)

lemma boolean_index_all:
  "\<forall>c \<in> set (map snd df). col_len c \<le> n \<Longrightarrow> boolean_index df (replicate n True) = df"
  unfolding boolean_index_def
  by (induction df) (auto simp: select_column_all)

lemma columns_boolean_index: "columns (boolean_index df keep) = columns df"
  by (simp add: boolean_index_def columns_def case_prod_unfold comp_def)

lemma getcol_in_frame: "getcol df k = Inr c \<Longrightarrow> c \<in> set (map snd df)"
  by (auto simp: getcol_def split: option.splits dest!: map_of_SomeD intro: rev_image_eqI)

lemma map2_and_True:
  "map2 (\<and>) (replicate n True) (replicate n True) = replicate n True"
  by (induction n) simp_all

lemma well_formed_len:
  "well_formed df \<Longrightarrow> c \<in> set (map snd df) \<Longrightarrow> d \<in> set (map snd df) \<Longrightarrow> col_len c = col_len d"
  unfolding well_formed_def by blast

lemma filter_all_identity:
  assumes wf: "well_formed t"
    and d: "getcol t ''DEPARTAMENTO'' = Inr d"
    and n: "getcol t ''Nivel'' = Inr n"
  shows "df_filtered t (unique d) (unique n) = Inr t"
proof -
  have dn: "col_len n = col_len d"
    using well_formed_len [OF wf getcol_in_frame [OF n] getcol_in_frame [OF d]] .
  have all: "\<forall>c \<in> set (map snd t). col_len c \<le> col_len d"
    using well_formed_len [OF wf _ getcol_in_frame [OF d]] by auto
  have "map2 (\<and>) (isin d (unique d)) (isin n (unique n)) = replicate (col_len d) True"
    by (simp only: isin_unique dn map2_and_True)
  then show ?thesis
    using d n all by (simp add: df_filtered_def boolean_index_all)
qed

lemma boolean_index_none:
  assumes "\<forall>b \<in> set keep. \<not> b" and "c \<in> set (map snd (boolean_index df keep))"
  shows "col_len c = 0"
proof -
  from assms(2) obtain k c' where "c = select_column keep c'"
    unfolding boolean_index_def by auto
  with select_column_none [OF assms(1)] show ?thesis by simp
qed

lemma isin_nothing: "isin s [] = replicate (col_len s) False"
  by (simp add: isin_def map_replicate_const length_cells)

lemma keep_nothing:
  assumes "departamento = [] \<or> nivel = []"
  shows "\<forall>b \<in> set (map2 (\<and>) (isin d departamento) (isin n nivel)). \<not> b"
proof
  fix b
  assume "b \<in> set (map2 (\<and>) (isin d departamento) (isin n nivel))"
  then obtain x y where xy: "(x, y) \<in> set (zip (isin d departamento) (isin n nivel))"
    and b: "b = (x \<and> y)" by auto
  from xy have x: "x \<in> set (isin d departamento)" and y: "y \<in> set (isin n nivel)"
    by (auto dest: set_zip_leftD set_zip_rightD)
  from assms show "\<not> b"
  proof
    assume "departamento = []"
    with x have "\<not> x" by (simp add: isin_nothing)
    with b show ?thesis by simp
  next
    assume "nivel = []"
    with y have "\<not> y" by (simp add: isin_nothing)
    with b show ?thesis by simp
  qed
qed

lemma filter_empty_selection:
  assumes d: "getcol t ''DEPARTAMENTO'' = Inr d"
    and n: "getcol t ''Nivel'' = Inr n"
    and e: "departamento = [] \<or> nivel = []"
  shows "\<exists>v. df_filtered t departamento nivel = Inr v \<and> columns v = columns t \<and>
             (\<forall>c \<in> set (map snd v). col_len c = 0)"
proof -
  have "df_filtered t departamento nivel =
        Inr (boolean_index t (map2 (\<and>) (isin d departamento) (isin n nivel)))"
    using d n by (simp add: df_filtered_def)
  with boolean_index_none [OF keep_nothing [OF e]] columns_boolean_index
  show ?thesis by blast
qed




lemma well_formed_rows:
  "well_formed df \<longleftrightarrow>
   distinct (columns df) \<and> (\<exists>n. \<forall>c \<in> set (map snd df). col_len c = n)"
proof -
  have h: "(\<forall>c \<in> S. \<forall>d \<in> S. col_len c = col_len d) \<longleftrightarrow> (\<exists>n. \<forall>c \<in> S. col_len c = n)"
    for S :: "column set"
  proof (cases "S = {}")
    case True
    then show ?thesis by simp
  next
    case False
    then obtain c0 where c0: "c0 \<in> S" by blast
    show ?thesis
    proof
      assume "\<forall>c \<in> S. \<forall>d \<in> S. col_len c = col_len d"
      with c0 have "\<forall>c \<in> S. col_len c = col_len c0" by blast
      then show "\<exists>n. \<forall>c \<in> S. col_len c = n" ..
    next
      assume "\<exists>n. \<forall>c \<in> S. col_len c = n"
      then show "\<forall>c \<in> S. \<forall>d \<in> S. col_len c = col_len d" by auto
    qed
  qed
  show ?thesis unfolding well_formed_def h by (rule refl)
qed

lemma setcol_members:
  "c' \<in> set (map snd (setcol df k c)) \<Longrightarrow> c' = c \<or> c' \<in> set (map snd df)"
  by (induction df k c rule: setcol.induct) (auto split: if_splits)

lemma distinct_setcol: "distinct (columns df) \<Longrightarrow> distinct (columns (setcol df k c))"
  by (simp add: columns_setcol)

lemma astype_float_length: "astype_float xs = Inr vs \<Longrightarrow> length vs = length xs"
  by (simp add: astype_float_iff list_all2_lengthD)

lemma clean_money_len: "clean_money_optimized s = Inr c \<Longrightarrow> col_len c = col_len s"
  by (cases s) (auto simp: clean_money_Object clean_money_Float64 split: sum.splits
      dest: astype_float_length)

lemma to_numeric_len: "col_len (to_numeric s) = col_len s"
  by (cases s) (simp_all add: to_numeric_def)

lemma fillna_len: "col_len (fillna v s) = col_len s"
  by (cases s) (simp_all add: fillna_def)

lemma clean_loop_rows:
  "clean_loop cols df = Inr df' \<Longrightarrow> \<forall>c \<in> set (map snd df). col_len c = n \<Longrightarrow>
   \<forall>c \<in> set (map snd df'). col_len c = n"
proof (induction cols arbitrary: df)
  case Nil
  then show ?case by simp
next
  case (Cons col cols)
  show ?case
  proof (cases "col \<in> set (columns df)")
    case True
    with Cons.prems(1) obtain s c where
      s: "getcol df col = Inr s" and c: "clean_money_optimized s = Inr c"
      and rest: "clean_loop cols (setcol df col c) = Inr df'"
      by (auto split: sum.splits)
    have "col_len s = n"
      using getcol_in_frame [OF s] Cons.prems(2) by blast
    then have "col_len c = n"
      using clean_money_len [OF c] by simp
    then have "\<forall>c' \<in> set (map snd (setcol df col c)). col_len c' = n"
      using Cons.prems(2) setcol_members by blast
    from Cons.IH [OF rest this] show ?thesis .
  next
    case False
    with Cons show ?thesis by simp
  qed
qed

lemma getcols_members: "getcols df ks = Inr cs \<Longrightarrow> set cs \<subseteq> set (map snd df)"
proof
  fix c
  assume g: "getcols df ks = Inr cs" and "c \<in> set cs"
  then obtain i where i: "i < length cs" "cs ! i = c" by (auto simp: in_set_conv_nth)
  with getcols_nth [OF g] have "getcol df (ks ! i) = Inr c" by auto
  then show "c \<in> set (map snd df)" by (rule getcol_in_frame)
qed

lemma setcols_rows:
  "\<forall>c \<in> set (map snd df). col_len c = n \<Longrightarrow> \<forall>c \<in> set cs. col_len c = n \<Longrightarrow>
   \<forall>c \<in> set (map snd (setcols df ks cs)). col_len c = n"
proof (induction df ks cs rule: setcols.induct)
  case (1 df k ks c cs)
  have "col_len c = n" using "1.prems"(2) by simp
  then have a: "\<forall>c' \<in> set (map snd (setcol df k c)). col_len c' = n"
    using "1.prems"(1) setcol_members [of _ df k c] by blast
  have b: "\<forall>c \<in> set cs. col_len c = n" using "1.prems"(2) by simp
  from "1.IH" [OF a b] show ?case by (simp only: setcols.simps)
qed (simp_all only: setcols.simps)

lemma distinct_setcols: "distinct (columns df) \<Longrightarrow> distinct (columns (setcols df ks cs))"
  by (induction df ks cs rule: setcols.induct) (simp_all add: distinct_setcol)

lemma load_body_well_formed:
  assumes wf: "well_formed df0" and t: "load_body df0 = Inr t"
  shows "well_formed t"
proof -
  from wf obtain n where dist: "distinct (columns df0)"
    and rows: "\<forall>c \<in> set (map snd df0). col_len c = n"
    unfolding well_formed_rows by blast
  from t obtain df1 q sub where
    l: "clean_loop monetary_columns df0 = Inr df1"
    and q: "getcol df1 ''CANTIDAD'' = Inr q"
    and g: "getcols (setcol df1 ''CANTIDAD'' (fillna 1 (to_numeric q))) monetary_columns = Inr sub"
    and e: "t = setcols (setcol df1 ''CANTIDAD'' (fillna 1 (to_numeric q))) monetary_columns
           (map (fillna 0) sub)"
    by (rule load_body_steps)
  let ?df2 = "setcol df1 ''CANTIDAD'' (fillna 1 (to_numeric q))"
  have r1: "\<forall>c \<in> set (map snd df1). col_len c = n"
    using clean_loop_rows [OF l rows] .
  have d1: "distinct (columns df1)" using clean_loop_columns [OF l] dist by simp
  have "col_len q = n"
    using getcol_in_frame [OF q] r1 by blast
  then have "col_len (fillna 1 (to_numeric q)) = n"
    by (simp add: fillna_len to_numeric_len)
  then have r2: "\<forall>c \<in> set (map snd ?df2). col_len c = n"
    using r1 setcol_members [of _ df1 "''CANTIDAD''"] by blast
  have d2: "distinct (columns ?df2)" using d1 by (rule distinct_setcol)
  have "\<forall>c \<in> set sub. col_len c = n"
    using getcols_members [OF g] r2 by blast
  then have "\<forall>c \<in> set (map (fillna 0) sub). col_len c = n"
    by (simp add: fillna_len)
  then have rt: "\<forall>c \<in> set (map snd t). col_len c = n"
    unfolding e by (rule setcols_rows [OF r2])
  have dt: "distinct (columns t)"
    unfolding e by (rule distinct_setcols [OF d2])
  show ?thesis
    unfolding well_formed_rows
  proof (intro conjI exI)
    show "distinct (columns t)" by (rule dt)
    show "\<forall>c \<in> set (map snd t). col_len c = n" by (rule rt)
  qed
qed

text \<open>
  Claim C5. A table loaded from a well-formed raw table, filtered with both widgets
  untouched, so that each selection is all the values observed in its column: the view
  is the loaded table itself.
\<close>

theorem filter_all_is_identity:
  assumes "well_formed df"
    and "load_data_optimized (Inr df) = (shown, Some t)"
    and "getcol t ''DEPARTAMENTO'' = Inr d"
    and "getcol t ''Nivel'' = Inr n"
  shows "df_filtered t (multiselect (unique d) (\<lambda>_. True)) (multiselect (unique n) (\<lambda>_. True))
         = Inr t"
proof -
  have "well_formed t"
    using load_body_well_formed [OF assms(1) load_Some [OF assms(2)]] .
  from filter_all_identity [OF this assms(3) assms(4)] show ?thesis
    by (simp add: multiselect_all)
qed




lemma scenario_well_formed: "well_formed scenario_table"
  by (simp add: well_formed_def scenario_table_def monetary_columns_def columns_def)

lemma scenario_loaded_dept:
  "getcol scenario_loaded ''DEPARTAMENTO'' = Inr (Object [Text ''A'', Text ''A'', Text ''B''])"
  by (simp add: getcol_def scenario_loaded_def)

lemma scenario_loaded_nivel:
  "getcol scenario_loaded ''Nivel'' = Inr (Object [Text ''Senior'', Text ''Junior'', Text ''Senior''])"
  by (simp add: getcol_def scenario_loaded_def)

theorem filter_all_is_identity_witness:
  "well_formed scenario_table \<and>
   load_data_optimized (Inr scenario_table) = ([], Some scenario_loaded) \<and>
   df_filtered scenario_loaded
     (multiselect (unique (Object [Text ''A'', Text ''A'', Text ''B''])) (\<lambda>_. True))
     (multiselect (unique (Object [Text ''Senior'', Text ''Junior'', Text ''Senior''])) (\<lambda>_. True))
   = Inr scenario_loaded"
  using scenario_well_formed scenario_load
    filter_all_is_identity [OF scenario_well_formed scenario_load scenario_loaded_dept
      scenario_loaded_nivel]
  by blast

text \<open>
  Claim C6. With an empty department selection, or an empty level selection, the filter
  raises nothing and returns the table's columns with no row, whatever the other
  selection is.
\<close>

theorem empty_selection_gives_no_rows:
  assumes "getcol t ''DEPARTAMENTO'' = Inr d"
    and "getcol t ''Nivel'' = Inr n"
    and "departamento = [] \<or> nivel = []"
  shows "\<exists>v. df_filtered t departamento nivel = Inr v \<and> columns v = columns t \<and>
             (\<forall>c \<in> set (map snd v). col_len c = 0)"
  using assms by (rule filter_empty_selection)

theorem empty_selection_gives_no_rows_witness:
  "(\<exists>v. df_filtered scenario_loaded [] [Obj (Text ''Senior'')] = Inr v \<and>
        columns v = columns scenario_loaded \<and> (\<forall>c \<in> set (map snd v). col_len c = 0)) \<and>
   (\<exists>v. df_filtered scenario_loaded [Obj (Text ''A'')] [] = Inr v \<and>
        columns v = columns scenario_loaded \<and> (\<forall>c \<in> set (map snd v). col_len c = 0))"
  using empty_selection_gives_no_rows [OF scenario_loaded_dept scenario_loaded_nivel,
      of "[]" "[Obj (Text ''Senior'')]"]
    empty_selection_gives_no_rows [OF scenario_loaded_dept scenario_loaded_nivel,
      of "[Obj (Text ''A'')]" "[]"]
  by simp



section \<open>Aggregation over a view\<close>


lemma getcol_boolean_index:
  "getcol (boolean_index df keep) k =
     (case getcol df k of Inl e \<Rightarrow> Inl e | Inr c \<Rightarrow> Inr (select_column keep c))"
  by (induction df) (auto simp: boolean_index_def getcol_def)

lemma df_filtered_Inr:
  assumes "df_filtered t departamento nivel = Inr v"
  obtains d n where "getcol t ''DEPARTAMENTO'' = Inr d" "getcol t ''Nivel'' = Inr n"
    "v = boolean_index t (map2 (\<and>) (isin d departamento) (isin n nivel))"
  using assms unfolding df_filtered_def by (auto split: sum.splits)

lemma fillna_to_numeric_float: "\<exists>ys. fillna v (to_numeric q) = Float64 ys"
  by (cases q) (simp_all add: fillna_def to_numeric_def)

lemma loaded_cantidad_float:
  "load_body df = Inr t \<Longrightarrow> \<exists>ys. getcol t ''CANTIDAD'' = Inr (Float64 ys)"
  using load_body_cantidad fillna_to_numeric_float by metis

lemma loaded_monetary_float:
  assumes t: "load_body df = Inr t" and k: "k \<in> set monetary_columns"
  shows "\<exists>ys. getcol t k = Inr (Float64 ys)"
proof -
  have "k \<in> set (columns df)"
    using load_body_missing_column [OF k] t by fastforce
  then obtain s where s: "getcol df k = Inr s" using getcol_Inr_iff by blast
  from load_body_monetary [OF t k s] obtain c where
    c: "clean_money_optimized s = Inr c" and g: "getcol t k = Inr (fillna 0 c)" by blast
  from clean_money_result [OF c] obtain vs where "c = Float64 vs" by blast
  with g show ?thesis by (simp add: fillna_def)
qed

lemma empty_float_values:
  assumes "getcol t k = Inr (Float64 ys)"
    and "\<forall>c \<in> set (map snd (boolean_index t keep)). col_len c = 0"
  shows "float_values (boolean_index t keep) k = Inr []"
proof -
  have g: "getcol (boolean_index t keep) k = Inr (Float64 (select keep ys))"
    using assms(1) by (simp add: getcol_boolean_index)
  from getcol_in_frame [OF g] assms(2) have "col_len (Float64 (select keep ys)) = 0"
    by blast
  then show ?thesis using g by (simp add: float_values_def)
qed

lemma empty_cells:
  assumes "getcol t k = Inr c"
    and "\<forall>c \<in> set (map snd (boolean_index t keep)). col_len c = 0"
  shows "\<exists>c'. getcol (boolean_index t keep) k = Inr c' \<and> cells c' = []"
proof -
  have g: "getcol (boolean_index t keep) k = Inr (select_column keep c)"
    using assms(1) by (simp add: getcol_boolean_index)
  from getcol_in_frame [OF g] assms(2) have "col_len (select_column keep c) = 0"
    by blast
  then have "cells (select_column keep c) = []"
    using length_cells [of "select_column keep c"] by simp
  with g show ?thesis by blast
qed

lemma column_means_empty:
  "\<forall>k \<in> set ks. float_values v k = Inr [] \<Longrightarrow>
   column_means v ks = Inr (map (\<lambda>k. (k, NaN)) ks)"
  by (induction ks) (simp_all add: raise_or_def series_mean_def)

lemma componentes_monetary: "set componentes \<subseteq> set monetary_columns"
  by (simp add: componentes_def monetary_columns_def)

lemma format_zero: "format_comma_0f (Fin 0) = ''0''"
  by (simp add: round_half_even_def nat_digits.simps digit_char_def)

text \<open>
  Claim C7, amended. For a view with no row, taken from a loaded table, no aggregation
  raises: the two total sums are 0, the group-by results and the summary table have no
  group, and every mean is NaN. The script shows the NaN as it is: the salary figure
  reads \<^verbatim>\<open>$nan COP\<close> and the pie chart gets NaN for each component.
\<close>

theorem empty_view_aggregates:
  assumes "load_data_optimized (Inr df) = (shown, Some t)"
    and "df_filtered t departamento nivel = Inr v"
    and "\<forall>c \<in> set (map snd v). col_len c = 0"
  shows "total_empleados v = Inr (Fin 0) \<and> costo_mensual v = Inr (Fin 0) \<and>
         promedio_salario v = Inr NaN \<and>
         aggregate v =
           Inr \<lparr>fig_bar = [], fig_bar2 = [],
                fig_pie = map (\<lambda>k. (k, NaN)) componentes,
                metrics = [(''Total Empleados'', ''0''), (''Costo Mensual Total'', ''$0 COP''),
                           (''Salario Promedio'', ''$nan COP'')],
                summary = []\<rparr>"
proof -
  note t = load_Some [OF assms(1)]
  from assms(2) obtain d n where d: "getcol t ''DEPARTAMENTO'' = Inr d"
    and n: "getcol t ''Nivel'' = Inr n"
    and v: "v = boolean_index t (map2 (\<and>) (isin d departamento) (isin n nivel))"
    by (rule df_filtered_Inr)
  note e = assms(3) [unfolded v]
  have mon: "float_values v k = Inr []" if "k \<in> set monetary_columns" for k
    using loaded_monetary_float [OF t that] empty_float_values [OF _ e] unfolding v by blast
  have q: "float_values v ''CANTIDAD'' = Inr []"
    using loaded_cantidad_float [OF t] empty_float_values [OF _ e] unfolding v by blast
  have s: "float_values v ''SALARIO MENSUAL INDIVIDUAL'' = Inr []"
    by (rule mon) (simp add: monetary_columns_def)
  have c: "float_values v ''Total Mensual (COP)'' = Inr []"
    by (rule mon) (simp add: monetary_columns_def)
  from empty_cells [OF d e] obtain d' where
    d': "getcol v ''DEPARTAMENTO'' = Inr d'" "cells d' = []" unfolding v by blast
  from empty_cells [OF n e] obtain n' where
    n': "getcol v ''Nivel'' = Inr n'" "cells n' = []" unfolding v by blast
  have te: "total_empleados v = Inr (Fin 0)"
    by (simp add: total_empleados_def q raise_or_def series_sum_def)
  have cm: "costo_mensual v = Inr (Fin 0)"
    by (simp add: costo_mensual_def c raise_or_def series_sum_def)
  have ps: "promedio_salario v = Inr NaN"
    by (simp add: promedio_salario_def s raise_or_def series_mean_def)
  have nc: "nivel_cantidad v = Inr []"
    by (simp add: nivel_cantidad_def n' q raise_or_def groupby_def)
  have dc: "dept_costs v = Inr []"
    by (simp add: dept_costs_def d' c raise_or_def groupby_def sort_values_def)
  have comp: "df_componentes v = Inr (map (\<lambda>k. (k, NaN)) componentes)"
    unfolding df_componentes_def
    using componentes_monetary mon by (intro column_means_empty) blast
  have res: "resumen_dept v = Inr []"
    by (simp add: resumen_dept_def d' q s c raise_or_def groupby_def)
  have "aggregate v =
           Inr \<lparr>fig_bar = [], fig_bar2 = [],
                fig_pie = map (\<lambda>k. (k, NaN)) componentes,
                metrics = [(''Total Empleados'', ''0''), (''Costo Mensual Total'', ''$0 COP''),
                           (''Salario Promedio'', ''$nan COP'')],
                summary = []\<rparr>"
    by (simp add: aggregate_def nc dc comp te cm ps res raise_or_def metric_total_empleados_def
        metric_costo_mensual_def metric_promedio_salario_def format_zero
        del: format_comma_0f.simps(4))
  with te cm ps show ?thesis by simp
qed


lemma scenario_no_department:
  "df_filtered scenario_loaded [] [Obj (Text ''Senior'')] =
   Inr (boolean_index scenario_loaded [False, False, False])"
  by (simp add: df_filtered_def scenario_loaded_dept scenario_loaded_nivel isin_def)

lemma scenario_no_rows:
  "\<forall>c \<in> set (map snd (boolean_index scenario_loaded [False, False, False])). col_len c = 0"
  by (rule ballI, rule boolean_index_none [of "[False, False, False]"]) simp_all

theorem empty_view_aggregates_witness:
  "load_data_optimized (Inr scenario_table) = ([], Some scenario_loaded) \<and>
   df_filtered scenario_loaded [] [Obj (Text ''Senior'')] =
     Inr (boolean_index scenario_loaded [False, False, False]) \<and>
   total_empleados (boolean_index scenario_loaded [False, False, False]) = Inr (Fin 0) \<and>
   costo_mensual (boolean_index scenario_loaded [False, False, False]) = Inr (Fin 0) \<and>
   promedio_salario (boolean_index scenario_loaded [False, False, False]) = Inr NaN \<and>
   aggregate (boolean_index scenario_loaded [False, False, False]) =
     Inr \<lparr>fig_bar = [], fig_bar2 = [],
          fig_pie = map (\<lambda>k. (k, NaN)) componentes,
          metrics = [(''Total Empleados'', ''0''), (''Costo Mensual Total'', ''$0 COP''),
                     (''Salario Promedio'', ''$nan COP'')],
          summary = []\<rparr>"
  using scenario_load scenario_no_department
    empty_view_aggregates [OF scenario_load scenario_no_department scenario_no_rows]
  by (intro conjI) simp_all

lemma scenario_salario:
  "getcol scenario_loaded ''SALARIO MENSUAL INDIVIDUAL'' = Inr (Float64 [Fin 1000, Fin 2000, Fin 500])"
  by (simp add: getcol_def scenario_loaded_def monetary_columns_def)

text \<open>
  Claim C7 as stated fails: with no department selected in the scenario table the mean
  salary is NaN and the figure shown is the text \<^verbatim>\<open>$nan COP\<close>; there is no state for
  "no data".
\<close>

theorem empty_view_mean_renders_nan:
  "df_filtered scenario_loaded [] [Obj (Text ''Senior'')] =
     Inr (boolean_index scenario_loaded [False, False, False]) \<and>
   promedio_salario (boolean_index scenario_loaded [False, False, False]) = Inr NaN \<and>
   metric_promedio_salario NaN = (''Salario Promedio'', ''$nan COP'')"
  by (simp add: scenario_no_department promedio_salario_def float_values_def
      getcol_boolean_index scenario_salario raise_or_def select_def series_mean_def
      metric_promedio_salario_def)



section \<open>The end-to-end scenario\<close>



text \<open>
  Claim C8. A raw table of three rows with departments A, A, B, quantities 2, 3, 1 and
  total monthly costs \<^verbatim>\<open>$1,000\<close>, \<^verbatim>\<open>$2,000\<close>, \<^verbatim>\<open>$500\<close>, whatever its other columns
  hold, once it loads: with department A selected and the levels untouched, the total
  headcount is 5 and the total monthly cost 3000, shown as \<^verbatim>\<open>5\<close> and
  \<^verbatim>\<open>$3,000 COP\<close>.
\<close>

theorem scenario_department_A_totals:
  assumes "load_data_optimized (Inr df) = (shown, Some t)"
    and "getcol df ''DEPARTAMENTO'' = Inr (Object [Text ''A'', Text ''A'', Text ''B''])"
    and "getcol df ''CANTIDAD'' = Inr (Object [Whole 2, Whole 3, Whole 1])"
    and "getcol df ''Total Mensual (COP)'' =
           Inr (Object [Text ''$1,000'', Text ''$2,000'', Text ''$500''])"
    and "getcol df ''Nivel'' = Inr n"
    and "col_len n = 3"
  shows "\<exists>v. df_filtered t (multiselect (unique (Object [Text ''A'', Text ''A'', Text ''B'']))
                          (\<lambda>c. c = Obj (Text ''A'')))
                        (multiselect (unique n) (\<lambda>_. True)) = Inr v \<and>
             total_empleados v = Inr (Fin 5) \<and>
             costo_mensual v = Inr (Fin 3000) \<and>
             metric_total_empleados (Fin 5) = (''Total Empleados'', ''5'') \<and>
             metric_costo_mensual (Fin 3000) = (''Costo Mensual Total'', ''$3,000 COP'')"
proof -
  note t = load_Some [OF assms(1)]
  have d: "getcol t ''DEPARTAMENTO'' = Inr (Object [Text ''A'', Text ''A'', Text ''B''])"
    using load_body_untouched [OF t, of "''DEPARTAMENTO''"] assms(2)
    by (simp add: monetary_columns_def)
  have n: "getcol t ''Nivel'' = Inr n"
    using load_body_untouched [OF t, of "''Nivel''"] assms(5)
    by (simp add: monetary_columns_def)
  have q: "getcol t ''CANTIDAD'' = Inr (Float64 [Fin 2, Fin 3, Fin 1])"
    using load_body_cantidad [OF t] assms(3)
    by (simp add: to_numeric_def fillna_def round_double_small)
  have "''Total Mensual (COP)'' \<in> set monetary_columns"
    by (simp add: monetary_columns_def)
  from load_body_monetary [OF t this assms(4)]
  have c: "getcol t ''Total Mensual (COP)'' = Inr (Float64 [Fin 1000, Fin 2000, Fin 500])"
    by (simp add: scenario_money fillna_def)
  have sel: "multiselect (unique (Object [Text ''A'', Text ''A'', Text ''B'']))
               (\<lambda>c. c = Obj (Text ''A'')) = [Obj (Text ''A'')]"
    by (simp add: multiselect_def unique_def)
  have keep: "map2 (\<and>) (isin (Object [Text ''A'', Text ''A'', Text ''B'']) [Obj (Text ''A'')])
                (isin n (unique n)) = [True, True, False]"
  proof -
    have "isin n (unique n) = [True, True, True]"
      by (simp add: isin_unique assms(6) numeral_3_eq_3)
    moreover have "isin (Object [Text ''A'', Text ''A'', Text ''B'']) [Obj (Text ''A'')] =
                   [True, True, False]"
      by (simp add: isin_def)
    ultimately show ?thesis by simp
  qed
  let ?v = "boolean_index t [True, True, False]"
  have v: "df_filtered t (multiselect (unique (Object [Text ''A'', Text ''A'', Text ''B'']))
                          (\<lambda>c. c = Obj (Text ''A'')))
                        (multiselect (unique n) (\<lambda>_. True)) = Inr ?v"
    by (simp add: df_filtered_def d n sel multiselect_all keep)
  have te: "total_empleados ?v = Inr (Fin 5)"
    by (simp add: total_empleados_def float_values_def getcol_boolean_index q raise_or_def
        select_def series_sum_def)
  have cm: "costo_mensual ?v = Inr (Fin 3000)"
    by (simp add: costo_mensual_def float_values_def getcol_boolean_index c raise_or_def
        select_def series_sum_def)
  have m1: "metric_total_empleados (Fin 5) = (''Total Empleados'', ''5'')"
    by (simp add: metric_total_empleados_def round_half_even_def nat_digits.simps digit_char_def)
  have m2: "metric_costo_mensual (Fin 3000) = (''Costo Mensual Total'', ''$3,000 COP'')"
    by (simp add: metric_costo_mensual_def round_half_even_def nat_digits.simps digit_char_def)
  from v te cm m1 m2 show ?thesis by blast
qed

lemma scenario_columns:
  "getcol scenario_table ''DEPARTAMENTO'' = Inr (Object [Text ''A'', Text ''A'', Text ''B''])"
  "getcol scenario_table ''CANTIDAD'' = Inr (Object [Whole 2, Whole 3, Whole 1])"
  "getcol scenario_table ''Total Mensual (COP)'' =
     Inr (Object [Text ''$1,000'', Text ''$2,000'', Text ''$500''])"
  "getcol scenario_table ''Nivel'' = Inr (Object [Text ''Senior'', Text ''Junior'', Text ''Senior''])"
  by (simp_all add: getcol_def scenario_table_def monetary_columns_def)

theorem scenario_department_A_totals_witness:
  "load_data_optimized (Inr scenario_table) = ([], Some scenario_loaded) \<and>
   (\<exists>v. df_filtered scenario_loaded
          (multiselect (unique (Object [Text ''A'', Text ''A'', Text ''B'']))
             (\<lambda>c. c = Obj (Text ''A'')))
          (multiselect (unique (Object [Text ''Senior'', Text ''Junior'', Text ''Senior'']))
             (\<lambda>_. True)) = Inr v \<and>
        total_empleados v = Inr (Fin 5) \<and>
        costo_mensual v = Inr (Fin 3000) \<and>
        metric_total_empleados (Fin 5) = (''Total Empleados'', ''5'') \<and>
        metric_costo_mensual (Fin 3000) = (''Costo Mensual Total'', ''$3,000 COP''))"
proof -
  have h6: "col_len (Object [Text ''Senior'', Text ''Junior'', Text ''Senior'']) = 3" by simp
  from scenario_load
    scenario_department_A_totals [OF scenario_load scenario_columns(1) scenario_columns(2)
      scenario_columns(3) scenario_columns(4) h6]
  show ?thesis by (intro conjI)
qed


end
